theory Spec2Isabelle
  imports Main
begin

section \<open>Strings\<close>

text \<open>
  Python strings are modelled as \<open>string\<close>; a \<open>char\<close> stands for a code point below 256.
  \<open>is_space\<close> lists the code points below 256 that \<open>str.strip()\<close> removes.
\<close>

definition is_space :: "char \<Rightarrow> bool" where
  "is_space c = (c \<in> set [CHR 0x09, CHR 0x0A, CHR 0x0B, CHR 0x0C, CHR 0x0D,
     CHR 0x1C, CHR 0x1D, CHR 0x1E, CHR 0x1F, CHR 0x20, CHR 0x85, CHR 0xA0])"

definition strip :: "string \<Rightarrow> string" where
  "strip s = rev (dropWhile is_space (rev (dropWhile is_space s)))"

definition uppercase :: "string" where
  "uppercase = ''ABCDEFGHIJKLMNOPQRSTUVWXYZ'' @
     [CHR 0xC0, CHR 0xC1, CHR 0xC2, CHR 0xC3, CHR 0xC4, CHR 0xC5, CHR 0xC6, CHR 0xC7,
      CHR 0xC8, CHR 0xC9, CHR 0xCA, CHR 0xCB, CHR 0xCC, CHR 0xCD, CHR 0xCE, CHR 0xCF,
      CHR 0xD0, CHR 0xD1, CHR 0xD2, CHR 0xD3, CHR 0xD4, CHR 0xD5, CHR 0xD6,
      CHR 0xD8, CHR 0xD9, CHR 0xDA, CHR 0xDB, CHR 0xDC, CHR 0xDD, CHR 0xDE]"

definition lowercase :: "string" where
  "lowercase = ''abcdefghijklmnopqrstuvwxyz'' @
     [CHR 0xE0, CHR 0xE1, CHR 0xE2, CHR 0xE3, CHR 0xE4, CHR 0xE5, CHR 0xE6, CHR 0xE7,
      CHR 0xE8, CHR 0xE9, CHR 0xEA, CHR 0xEB, CHR 0xEC, CHR 0xED, CHR 0xEE, CHR 0xEF,
      CHR 0xF0, CHR 0xF1, CHR 0xF2, CHR 0xF3, CHR 0xF4, CHR 0xF5, CHR 0xF6,
      CHR 0xF8, CHR 0xF9, CHR 0xFA, CHR 0xFB, CHR 0xFC, CHR 0xFD, CHR 0xFE]"

definition lower_char :: "char \<Rightarrow> char" where
  "lower_char c = (case map_of (zip uppercase lowercase) c of Some d \<Rightarrow> d | None \<Rightarrow> c)"

definition lower :: "string \<Rightarrow> string" where
  "lower s = map lower_char s"

definition endswith :: "string \<Rightarrow> string \<Rightarrow> bool" where
  "endswith s suffix =
     (length suffix \<le> length s \<and> drop (length s - length suffix) s = suffix)"

section \<open>Paths\<close>

text \<open>
  \<open>os.path.join\<close> and \<open>os.path.splitext\<close> as \<open>posixpath\<close> defines them, for two components
  and the separator \<open>/\<close>. \<open>rfind\<close> is \<open>str.rfind\<close> for a single character: the highest
  index, or \<open>-1\<close>.
\<close>

definition path_join :: "string \<Rightarrow> string \<Rightarrow> string" where
  "path_join a b =
     (if b \<noteq> [] \<and> hd b = CHR ''/'' then b
      else if a = [] \<or> last a = CHR ''/'' then a @ b
      else a @ ''/'' @ b)"

definition rfind :: "char \<Rightarrow> string \<Rightarrow> int" where
  "rfind c p =
     (if c \<in> set p then int (length p) - 1 - int (length (takeWhile (\<lambda>x. x \<noteq> c) (rev p)))
      else - 1)"

definition splitext :: "string \<Rightarrow> string \<times> string" where
  "splitext p =
     (let sepIndex = rfind CHR ''/'' p;
          dotIndex = rfind CHR ''.'' p
      in if dotIndex > sepIndex \<and>
            list_ex (\<lambda>c. c \<noteq> CHR ''.'')
              (take (nat (dotIndex - (sepIndex + 1))) (drop (nat (sepIndex + 1)) p))
         then (take (nat dotIndex) p, drop (nat dotIndex) p)
         else (p, []))"

section \<open>Data\<close>

text \<open>
  Exceptions carry their message (\<open>str(e)\<close>). \<open>FileNotFoundError\<close> is kept apart because the
  source has a handler of its own for it; \<open>Exception\<close> stands for every other subclass of
  \<open>Exception\<close>.
\<close>

datatype exn = FileNotFoundError string | Exception string

text \<open>
  A cell of the DataFrame, as \<open>read_excel\<close> returned it, is either a missing value (NaN,
  which \<open>read_excel\<close> can return for an empty spreadsheet cell) or a value, given by the
  string \<open>str\<close> yields for it. \<open>py_str\<close> is \<open>str(...)\<close> of line 114 and \<open>astype(str)\<close> of line
  101 on a cell: both render a missing value as \<open>nan\<close>. Which of the two a given
  spreadsheet cell becomes is up to \<open>read_excel\<close>, whose result is a parameter here.
\<close>

datatype cell = NaN | Val string

fun py_str :: "cell \<Rightarrow> string" where
  "py_str NaN = ''nan''"
| "py_str (Val s) = s"

text \<open>
  A row holds the cells of the two columns the source reads. \<open>columns\<close> holds \<open>str(col)\<close> of
  every column label. When the label \<open>Employee Name\<close> occurs more than once after stripping,
  line 101 selects a frame instead of a column and raises (see \<open>cert_step\<close>), and the
  employee cells of the rows are not read. When the label \<open>Challan Number\<close> occurs more than
  once, \<open>row[...]\<close> of line 114 is a series and the challan cell of the row is the value whose
  \<open>str\<close> is the rendering of that series.
\<close>

record row =
  employee_cell :: cell
  challan_cell :: cell

record dataframe =
  columns :: "string list"
  rows :: "row list"

text \<open>
  What is stored at a path, seen through \<open>PdfWriter.append\<close>: \<open>Pdf ps\<close> is a document whose
  pages \<open>ps\<close> get appended; on \<open>Damaged ps e\<close> (a corrupt file, a directory, ...) the call
  raises \<open>e\<close> after having added the pages \<open>ps\<close> (none when it fails on opening).
\<close>

type_synonym page = nat

datatype content = Pdf "page list" | Damaged "page list" exn

type_synonym filesystem = "string \<rightharpoonup> content"

text \<open>
  How writing an output path fails, if it does: \<open>open(path, 'wb')\<close> raises and the file is
  untouched, or \<open>merger.write\<close> raises after the file was opened (created or truncated) and
  leaves the given content behind.
\<close>

datatype write_fault = OpenFails exn | WriteFails exn content

record paths =
  cert_dir :: string
  challan_dir :: string
  output_dir :: string
  excel_file :: string

text \<open>The world outside the program: what the library calls return.\<close>

record world =
  read_excel :: "string \<Rightarrow> exn + dataframe"
  listdir :: "string \<Rightarrow> exn + string list"
  out_fault :: "string \<Rightarrow> write_fault option"

text \<open>
  A log record is its level and the parts of its f-string: literal text and the
  interpolated values, in order.
\<close>

datatype level = INFO | WARNING | ERROR

datatype piece = Lit string | Str string | Num nat | Cols "string list" | Exc exn

type_synonym event = "level \<times> piece list"

text \<open>
  The state the function works on: the log, the file system, the completed output writes
  of this run in order, and the local counter \<open>processed_files\<close>.
\<close>

record state =
  logged :: "event list"
  files :: filesystem
  writes :: "(string \<times> content) list"
  processed_files :: nat

datatype completion = Returned | Raised exn

section \<open>The program\<close>

definition apostrophe :: string where
  "apostrophe = [CHR 0x27]"

definition log_event :: "level \<Rightarrow> piece list \<Rightarrow> state \<Rightarrow> state" where
  "log_event lvl msg st = st\<lparr>logged := logged st @ [(lvl, msg)]\<rparr>"

definition employee_col_name :: string where
  "employee_col_name = ''Employee Name''"

definition challan_col_name :: string where
  "challan_col_name = ''Challan Number''"

text \<open>\<open>os.path.exists\<close>.\<close>

definition exists :: "filesystem \<Rightarrow> string \<Rightarrow> bool" where
  "exists fs p = (fs p \<noteq> None)"

text \<open>\<open>merger.append(path)\<close>: the new merger, or the exception with the merger as it was left.\<close>

definition pdf_append :: "filesystem \<Rightarrow> page list \<Rightarrow> string \<Rightarrow> (exn \<times> page list) + page list" where
  "pdf_append fs merger path =
     (case fs path of
        None \<Rightarrow> Inl (FileNotFoundError path, merger)
      | Some (Pdf ps) \<Rightarrow> Inr (merger @ ps)
      | Some (Damaged ps e) \<Rightarrow> Inl (e, merger @ ps))"

text \<open>Line 101: the rows whose stripped name equals the stripped employee name.\<close>

definition employee_challans :: "dataframe \<Rightarrow> string \<Rightarrow> row list" where
  "employee_challans df employee_name =
     filter (\<lambda>r. strip (py_str (employee_cell r)) = strip employee_name) (rows df)"

definition challan_num :: "row \<Rightarrow> string" where
  "challan_num r = strip (py_str (challan_cell r))"

definition challan_filename :: "row \<Rightarrow> string" where
  "challan_filename r = challan_num r @ ''.pdf''"

definition challan_path :: "paths \<Rightarrow> row \<Rightarrow> string" where
  "challan_path ps r = path_join (challan_dir ps) (challan_filename r)"

text \<open>Lines 113-125: the loop over the employee's rows.\<close>

fun challan_loop :: "paths \<Rightarrow> row list \<Rightarrow> page list \<Rightarrow> state \<Rightarrow> page list \<times> state" where
  "challan_loop ps [] merger st = (merger, st)"
| "challan_loop ps (r # rs) merger st =
     (if exists (files st) (challan_path ps r) then
        (case pdf_append (files st) merger (challan_path ps r) of
           Inr merger' \<Rightarrow>
             challan_loop ps rs merger'
               (log_event INFO [Lit ''  + Added challan: '', Str (challan_filename r)] st)
         | Inl (e, merger') \<Rightarrow>
             challan_loop ps rs merger'
               (log_event WARNING [Lit ''  - Could not merge challan file '',
                  Str (challan_path ps r), Lit ''. Skipping. Error: '', Exc e] st))
      else
        challan_loop ps rs merger
          (log_event WARNING [Lit ''  - Challan file not found: '',
             Str (challan_path ps r), Lit ''. Skipping.''] st))"

definition output_path :: "paths \<Rightarrow> string \<Rightarrow> string" where
  "output_path ps employee_name = path_join (output_dir ps) (employee_name @ ''_combined.pdf'')"

text \<open>Lines 130-131: \<open>with open(output_path, 'wb') as f: merger.write(f)\<close>.\<close>

definition write_output :: "world \<Rightarrow> string \<Rightarrow> page list \<Rightarrow> state \<Rightarrow> exn option \<times> state" where
  "write_output w path merger st =
     (case out_fault w path of
        Some (OpenFails e) \<Rightarrow> (Some e, st)
      | Some (WriteFails e left) \<Rightarrow> (Some e, st\<lparr>files := (files st)(path \<mapsto> left)\<rparr>)
      | None \<Rightarrow>
          (None, st\<lparr>files := (files st)(path \<mapsto> Pdf merger),
                    writes := writes st @ [(path, Pdf merger)]\<rparr>))"

definition critical :: "string \<Rightarrow> exn \<Rightarrow> piece list" where
  "critical employee_name e =
     [Lit ''A critical error occurred while processing '', Str employee_name,
      Lit ''. Skipping. Error: '', Exc e]"

text \<open>
  Lines 97-138: the body of the loop over the certificates, for a frame in which the label
  \<open>Employee Name\<close> selects one column, so that line 101 returns the selected rows.
\<close>

definition process_cert :: "paths \<Rightarrow> world \<Rightarrow> dataframe \<Rightarrow> string \<Rightarrow> state \<Rightarrow> state" where
  "process_cert ps w df cert_filename st =
     (let employee_name = fst (splitext cert_filename);
          st1 = log_event INFO [Lit ''--- Processing certificate for: '', Str employee_name,
                  Lit '' ---''] st;
          challans = employee_challans df employee_name
      in if challans = [] then
           log_event WARNING [Lit (''No challan entries found for '' @ apostrophe),
             Str employee_name, Lit (apostrophe @ '' in the Excel file. Skipping.'')] st1
         else
           (let cert_path = path_join (cert_dir ps) cert_filename
            in case pdf_append (files st1) [] cert_path of
                 Inl (e, _) \<Rightarrow> log_event ERROR (critical employee_name e) st1
               | Inr merger \<Rightarrow>
                   (let st2 = log_event INFO [Lit ''Added certificate: '', Str cert_filename] st1;
                        (merger', st3) = challan_loop ps challans merger st2
                    in case write_output w (output_path ps employee_name) merger' st3 of
                         (Some e, st4) \<Rightarrow> log_event ERROR (critical employee_name e) st4
                       | (None, st4) \<Rightarrow>
                           (log_event INFO [Lit ''Successfully created merged file: '',
                               Str (output_path ps employee_name)] st4)
                             \<lparr>processed_files := processed_files st4 + 1\<rparr>)))"

text \<open>
  Line 101 when the label \<open>Employee Name\<close> is on more than one column:
  \<open>df[employee_col_name]\<close> is a frame, \<open>astype(str)\<close> keeps it one, and \<open>.str\<close> raises
  \<open>AttributeError\<close>, a subclass of \<open>Exception\<close>, with this message.
\<close>

definition ambiguous_label_error :: exn where
  "ambiguous_label_error =
     Exception (apostrophe @ ''DataFrame'' @ apostrophe @ '' object has no attribute ''
                @ apostrophe @ ''str'' @ apostrophe)"

text \<open>
  Lines 96-138, one round of the loop over the certificates. With an ambiguous label
  the exception of line 101 is raised inside the \<open>try\<close> of line 100, after the record of
  line 98, and the handler of lines 136-138 logs it; otherwise the round is
  \<open>process_cert\<close>.
\<close>

definition cert_step :: "paths \<Rightarrow> world \<Rightarrow> dataframe \<Rightarrow> string \<Rightarrow> state \<Rightarrow> state" where
  "cert_step ps w df cert_filename st =
     (if 1 < count_list (columns df) employee_col_name then
        (let employee_name = fst (splitext cert_filename);
             st1 = log_event INFO [Lit ''--- Processing certificate for: '', Str employee_name,
                     Lit '' ---''] st
         in log_event ERROR (critical employee_name ambiguous_label_error) st1)
      else process_cert ps w df cert_filename st)"

fun cert_loop :: "paths \<Rightarrow> world \<Rightarrow> dataframe \<Rightarrow> string list \<Rightarrow> state \<Rightarrow> state" where
  "cert_loop ps w df [] st = st"
| "cert_loop ps w df (cert_filename # rest) st =
     cert_loop ps w df rest (cert_step ps w df cert_filename st)"

definition start_log :: "paths \<Rightarrow> event list" where
  "start_log ps =
     [(INFO, [Lit ''Starting the PDF merging process...'']),
      (INFO, [Lit ''Certificate Directory: '', Str (cert_dir ps)]),
      (INFO, [Lit ''Challan Directory: '', Str (challan_dir ps)]),
      (INFO, [Lit ''Output Directory: '', Str (output_dir ps)]),
      (INFO, [Lit ''Excel File: '', Str (excel_file ps)])]"

definition summary :: "nat \<Rightarrow> nat \<Rightarrow> event" where
  "summary n_done n_total =
     (INFO, [Lit ''Successfully processed and merged PDFs for '', Num n_done,
             Lit '' out of '', Num n_total, Lit '' employees.''])"

definition total_certs :: "string list \<Rightarrow> string list" where
  "total_certs names = filter (\<lambda>f. endswith (lower f) ''.pdf'') names"

text \<open>
  Lines 62-141. The function returns nothing; the result is the final state and whether
  the call returned or an exception left it.
\<close>

definition merge_pdfs_logic :: "paths \<Rightarrow> world \<Rightarrow> filesystem \<Rightarrow> state \<times> completion" where
  "merge_pdfs_logic ps w fs =
     (let st0 = \<lparr>logged = start_log ps, files = fs, writes = [], processed_files = 0\<rparr>
      in case read_excel w (excel_file ps) of
           Inl (FileNotFoundError m) \<Rightarrow>
             (log_event ERROR [Lit ''The Excel file was not found at '', Str (excel_file ps)] st0,
              Returned)
         | Inl (Exception m) \<Rightarrow>
             (log_event ERROR [Lit ''An error occurred while reading the Excel file: '',
                Exc (Exception m)] st0, Returned)
         | Inr df0 \<Rightarrow>
             (let df = df0\<lparr>columns := map strip (columns df0)\<rparr>
              in if employee_col_name \<notin> set (columns df) \<or> challan_col_name \<notin> set (columns df)
                 then
                   (log_event ERROR [Lit ''Found columns: '', Cols (columns df)]
                      (log_event ERROR
                         [Lit (''Excel file must contain columns named '' @ apostrophe),
                          Str employee_col_name, Lit (apostrophe @ '' and '' @ apostrophe),
                          Str challan_col_name, Lit (apostrophe @ ''.'')] st0),
                    Returned)
                 else
                   (let st1 = log_event INFO
                                [Lit ''Successfully loaded and validated the Excel file.''] st0
                    in case listdir w (cert_dir ps) of
                         Inl e \<Rightarrow> (st1, Raised e)
                       | Inr names \<Rightarrow>
                           (let certs = total_certs names;
                                st2 = log_event INFO [Lit ''Found '', Num (length certs),
                                        Lit '' PDF files in the certificate directory.''] st1;
                                st3 = cert_loop ps w df certs st2;
                                st4 = log_event INFO [Lit ''--- Process Complete ---''] st3
                            in (st4\<lparr>logged := logged st4
                                  @ [summary (processed_files st4) (length certs)]\<rparr>,
                                Returned)))))"

section \<open>The index of the specification\<close>




section \<open>Summaries used in the proofs\<close>

text \<open>The pages \<open>append\<close> adds to the merger from a file, and from a path.\<close>

fun pages_of :: "content \<Rightarrow> page list" where
  "pages_of (Pdf pgs) = pgs"
| "pages_of (Damaged pgs e) = pgs"

definition appended :: "filesystem \<Rightarrow> string \<Rightarrow> page list" where
  "appended fs p = (case fs p of None \<Rightarrow> [] | Some c \<Rightarrow> pages_of c)"

text \<open>The record one round of the loop over the rows logs.\<close>

definition missing_warning :: "paths \<Rightarrow> row \<Rightarrow> event" where
  "missing_warning ps r =
     (WARNING, [Lit ''  - Challan file not found: '', Str (challan_path ps r), Lit ''. Skipping.''])"

definition challan_event :: "filesystem \<Rightarrow> paths \<Rightarrow> row \<Rightarrow> event" where
  "challan_event fs ps r =
     (case fs (challan_path ps r) of
        None \<Rightarrow> missing_warning ps r
      | Some (Pdf pgs) \<Rightarrow> (INFO, [Lit ''  + Added challan: '', Str (challan_filename r)])
      | Some (Damaged pgs e) \<Rightarrow>
          (WARNING, [Lit ''  - Could not merge challan file '', Str (challan_path ps r),
             Lit ''. Skipping. Error: '', Exc e]))"

definition processing_event :: "string \<Rightarrow> event" where
  "processing_event employee_name =
     (INFO, [Lit ''--- Processing certificate for: '', Str employee_name, Lit '' ---''])"

definition skip_warning :: "string \<Rightarrow> event" where
  "skip_warning employee_name =
     (WARNING, [Lit (''No challan entries found for '' @ apostrophe), Str employee_name,
        Lit (apostrophe @ '' in the Excel file. Skipping.'')])"

text \<open>The paths the body of the loop reads for a certificate.\<close>

definition cert_path :: "paths \<Rightarrow> string \<Rightarrow> string" where
  "cert_path ps cert_filename = path_join (cert_dir ps) cert_filename"

definition reads :: "paths \<Rightarrow> dataframe \<Rightarrow> string list \<Rightarrow> string set" where
  "reads ps df certs = cert_path ps ` set certs \<union> challan_path ps ` set (rows df)"

text \<open>The records one certificate logs besides those of its rows.\<close>

definition added_cert_event :: "string \<Rightarrow> event" where
  "added_cert_event cert_filename = (INFO, [Lit ''Added certificate: '', Str cert_filename])"

definition success_event :: "paths \<Rightarrow> string \<Rightarrow> event" where
  "success_event ps employee_name =
     (INFO, [Lit ''Successfully created merged file: '', Str (output_path ps employee_name)])"

text \<open>
  The pages of the combined document of a certificate: the pages appended from the
  certificate, then those appended from the path of each of the person's rows, in order.
\<close>

definition combined :: "paths \<Rightarrow> dataframe \<Rightarrow> filesystem \<Rightarrow> string \<Rightarrow> page list" where
  "combined ps df fs cert_filename =
     appended fs (cert_path ps cert_filename)
     @ concat (map (\<lambda>r. appended fs (challan_path ps r))
         (employee_challans df (fst (splitext cert_filename))))"

text \<open>
  Two states agree on a set of paths when they differ at most in the files outside it;
  two runs have the same effect when every path is left alone by both or ends with the
  same content in both.
\<close>

definition agree :: "string set \<Rightarrow> state \<Rightarrow> state \<Rightarrow> bool" where
  "agree R st st' =
     (logged st = logged st' \<and> writes st = writes st' \<and> processed_files st = processed_files st'
      \<and> (\<forall>p \<in> R. files st p = files st' p))"

definition same_effect :: "state \<Rightarrow> state \<Rightarrow> state \<Rightarrow> state \<Rightarrow> bool" where
  "same_effect st st' t t' =
     (\<forall>p. (files t p = files st p \<and> files t' p = files st' p) \<or> files t p = files t' p)"

text \<open>The record that opens the processing of a certificate, recognised by its first part.\<close>

definition is_processing :: "event \<Rightarrow> bool" where
  "is_processing ev =
     (fst ev = INFO \<and> take 1 (snd ev) = [Lit ''--- Processing certificate for: ''])"

text \<open>
  The state in which the loop over the certificates starts, and the two records that end
  the run; \<open>schema_ok\<close> is the negation of the test of line 78.
\<close>

definition loaded_state :: "paths \<Rightarrow> filesystem \<Rightarrow> nat \<Rightarrow> state" where
  "loaded_state ps fs n =
     \<lparr>logged = start_log ps
        @ [(INFO, [Lit ''Successfully loaded and validated the Excel file.'']),
           (INFO, [Lit ''Found '', Num n, Lit '' PDF files in the certificate directory.''])],
      files = fs, writes = [], processed_files = 0\<rparr>"

definition finished :: "nat \<Rightarrow> state \<Rightarrow> state" where
  "finished n st =
     st\<lparr>logged := logged st
        @ [(INFO, [Lit ''--- Process Complete ---'']), summary (processed_files st) n]\<rparr>"

definition schema_ok :: "dataframe \<Rightarrow> bool" where
  "schema_ok df0 =
     (employee_col_name \<in> set (map strip (columns df0))
      \<and> challan_col_name \<in> set (map strip (columns df0)))"

section \<open>Example inputs\<close>

text \<open>
  The scenario of the specification: rows (Alice, 101), (Alice, 102), (Bob, 201);
  certificates for Alice, Bob and Carol; receipts 101 and 201 present, 102 missing.
\<close>

definition ex_paths :: paths where
  "ex_paths = \<lparr>cert_dir = ''certs'', challan_dir = ''challans'', output_dir = ''out'',
     excel_file = ''map.xlsx''\<rparr>"

definition ex_df :: dataframe where
  "ex_df = \<lparr>columns = [''Employee Name '', '' Challan Number''],
     rows = [\<lparr>employee_cell = Val '' Alice'', challan_cell = Val ''101 ''\<rparr>,
             \<lparr>employee_cell = Val ''Alice'', challan_cell = Val ''102''\<rparr>,
             \<lparr>employee_cell = Val ''Bob'', challan_cell = Val ''201''\<rparr>]\<rparr>"

definition ex_world :: world where
  "ex_world = \<lparr>read_excel = (\<lambda>p. Inr ex_df),
     listdir = (\<lambda>d. Inr [''Alice.pdf'', ''Bob.pdf'', ''Carol.pdf'', ''notes.txt'']),
     out_fault = (\<lambda>p. None)\<rparr>"

definition ex_files :: filesystem where
  "ex_files = [''certs/Alice.pdf'' \<mapsto> Pdf [1, 2], ''certs/Bob.pdf'' \<mapsto> Pdf [3],
     ''certs/Carol.pdf'' \<mapsto> Pdf [4], ''challans/101.pdf'' \<mapsto> Pdf [10],
     ''challans/201.pdf'' \<mapsto> Pdf [20, 21]]"

definition ex_state :: state where
  "ex_state = \<lparr>logged = [], files = ex_files, writes = [], processed_files = 0\<rparr>"

text \<open>Variations of the scenario: damaged files, a duplicated base name, a spreadsheet
  without the Challan Number column, a directory that cannot be listed, an output
  directory that cannot be written, a spreadsheet with two columns labelled Employee Name
  after stripping, and rows with a blank, a missing and an empty receipt id.\<close>

definition ex_names :: "string list" where
  "ex_names = [''Alice.pdf'', ''Bob.pdf'', ''Carol.pdf'', ''notes.txt'']"

definition damaged_receipt_state :: state where
  "damaged_receipt_state =
     ex_state\<lparr>files := ex_files(''challans/101.pdf'' \<mapsto> Damaged [] (Exception ''not a PDF''))\<rparr>"


definition damaged_cert_state :: state where
  "damaged_cert_state =
     ex_state\<lparr>files := ex_files(''certs/Bob.pdf'' \<mapsto> Damaged [] (Exception ''EOF marker not found''))\<rparr>"

definition dup_world :: world where
  "dup_world = ex_world\<lparr>listdir := (\<lambda>d. Inr [''Alice.pdf'', ''Alice.PDF''])\<rparr>"

definition dup_files :: filesystem where
  "dup_files = ex_files(''certs/Alice.PDF'' \<mapsto> Pdf [5])"


definition bad_df :: dataframe where
  "bad_df = ex_df\<lparr>columns := [''Employee Name '', ''Challan No'']\<rparr>"

definition bad_world :: world where
  "bad_world = ex_world\<lparr>read_excel := (\<lambda>p. Inr bad_df)\<rparr>"

definition nolist_world :: world where
  "nolist_world = ex_world\<lparr>listdir := (\<lambda>d. Inl (FileNotFoundError d))\<rparr>"

definition readonly_world :: world where
  "readonly_world = ex_world\<lparr>out_fault := (\<lambda>p. Some (OpenFails (Exception ''Permission denied'')))\<rparr>"

definition full_disk_world :: world where
  "full_disk_world = ex_world\<lparr>out_fault :=
     (\<lambda>p. Some (WriteFails (Exception ''No space left on device'')
                  (Damaged [] (Exception ''truncated''))))\<rparr>"

definition blank_row :: row where
  "blank_row = \<lparr>employee_cell = Val ''Alice'', challan_cell = Val ''  ''\<rparr>"

definition nan_row :: row where
  "nan_row = \<lparr>employee_cell = Val ''Alice'', challan_cell = NaN\<rparr>"


definition ambiguous_df :: dataframe where
  "ambiguous_df = ex_df\<lparr>columns := [''Employee Name'', ''Employee Name '', ''Challan Number'']\<rparr>"

definition empty_text_row :: row where
  "empty_text_row = \<lparr>employee_cell = Val ''Alice'', challan_cell = Val ''''\<rparr>"

section \<open>Basic facts\<close>

lemma log_event_simps [simp]:
  "logged (log_event l m st) = logged st @ [(l, m)]"
  "files (log_event l m st) = files st"
  "writes (log_event l m st) = writes st"
  "processed_files (log_event l m st) = processed_files st"
  by (simp_all add: log_event_def)

lemma challan_loop_eq:
  "challan_loop ps rs m st =
     (m @ concat (map (\<lambda>r. appended (files st) (challan_path ps r)) rs),
      st\<lparr>logged := logged st @ map (challan_event (files st) ps) rs\<rparr>)"
proof (induction rs arbitrary: m st)
  case Nil
  show ?case by simp
next
  case (Cons r rs)
  show ?case
    by (simp add: Cons.IH exists_def pdf_append_def appended_def challan_event_def
        missing_warning_def log_event_def split: option.splits content.splits)
qed

lemma employee_challans_columns [simp]:
  "employee_challans (df\<lparr>columns := cs\<rparr>) n = employee_challans df n"
  by (simp add: employee_challans_def)

lemma employee_challans_subset: "set (employee_challans df n) \<subseteq> set (rows df)"
  by (auto simp: employee_challans_def)


lemma strip_blank:
  assumes "\<forall>c \<in> set s. is_space c"
  shows "strip s = []"
proof -
  from assms have h: "dropWhile is_space s = []"
    by (induction s) simp_all
  show ?thesis by (simp only: strip_def h rev.simps dropWhile.simps)
qed

section \<open>The outcomes of one certificate\<close>

lemma process_cert_skip:
  assumes "employee_challans df (fst (splitext c)) = []"
  shows "process_cert ps w df c st =
     st\<lparr>logged := logged st @ [processing_event (fst (splitext c)), skip_warning (fst (splitext c))]\<rparr>"
  using assms
  by (simp add: process_cert_def Let_def processing_event_def skip_warning_def log_event_def)

lemma process_cert_cert_fails:
  assumes "employee_challans df (fst (splitext c)) \<noteq> []"
      and "pdf_append (files st) [] (cert_path ps c) = Inl (e, m)"
  shows "process_cert ps w df c st =
     st\<lparr>logged := logged st @ [processing_event (fst (splitext c)),
                                (ERROR, critical (fst (splitext c)) e)]\<rparr>"
  using assms
  by (simp add: process_cert_def Let_def processing_event_def log_event_def cert_path_def)

lemma process_cert_merged:
  assumes "employee_challans df (fst (splitext c)) \<noteq> []"
      and "files st (cert_path ps c) = Some (Pdf cps)"
      and "out_fault w (output_path ps (fst (splitext c))) = None"
  shows "process_cert ps w df c st =
     st\<lparr>logged := logged st @ [processing_event (fst (splitext c)), added_cert_event c]
                 @ map (challan_event (files st) ps) (employee_challans df (fst (splitext c)))
                 @ [success_event ps (fst (splitext c))],
        files := (files st)(output_path ps (fst (splitext c)) \<mapsto> Pdf (combined ps df (files st) c)),
        writes := writes st @ [(output_path ps (fst (splitext c)), Pdf (combined ps df (files st) c))],
        processed_files := processed_files st + 1\<rparr>"
  using assms
  by (simp add: process_cert_def Let_def processing_event_def log_event_def cert_path_def
      pdf_append_def challan_loop_eq write_output_def added_cert_event_def success_event_def
      combined_def appended_def)

lemma process_cert_open_fails:
  assumes "employee_challans df (fst (splitext c)) \<noteq> []"
      and "files st (cert_path ps c) = Some (Pdf cps)"
      and "out_fault w (output_path ps (fst (splitext c))) = Some (OpenFails e)"
  shows "process_cert ps w df c st =
     st\<lparr>logged := logged st @ [processing_event (fst (splitext c)), added_cert_event c]
                 @ map (challan_event (files st) ps) (employee_challans df (fst (splitext c)))
                 @ [(ERROR, critical (fst (splitext c)) e)]\<rparr>"
  using assms
  by (simp add: process_cert_def Let_def processing_event_def log_event_def cert_path_def
      pdf_append_def challan_loop_eq write_output_def added_cert_event_def)

lemma process_cert_write_fails:
  assumes "employee_challans df (fst (splitext c)) \<noteq> []"
      and "files st (cert_path ps c) = Some (Pdf cps)"
      and "out_fault w (output_path ps (fst (splitext c))) = Some (WriteFails e left)"
  shows "process_cert ps w df c st =
     st\<lparr>logged := logged st @ [processing_event (fst (splitext c)), added_cert_event c]
                 @ map (challan_event (files st) ps) (employee_challans df (fst (splitext c)))
                 @ [(ERROR, critical (fst (splitext c)) e)],
        files := (files st)(output_path ps (fst (splitext c)) \<mapsto> left)\<rparr>"
  using assms
  by (simp add: process_cert_def Let_def processing_event_def log_event_def cert_path_def
      pdf_append_def challan_loop_eq write_output_def added_cert_event_def)

lemma process_cert_cases:
  "(employee_challans df (fst (splitext c)) = []
      \<and> process_cert ps w df c st =
          st\<lparr>logged := logged st @ [processing_event (fst (splitext c)), skip_warning (fst (splitext c))]\<rparr>)
   \<or> (employee_challans df (fst (splitext c)) \<noteq> []
      \<and> (\<exists>e. process_cert ps w df c st =
          st\<lparr>logged := logged st @ [processing_event (fst (splitext c)),
                                     (ERROR, critical (fst (splitext c)) e)]\<rparr>))
   \<or> (employee_challans df (fst (splitext c)) \<noteq> []
      \<and> (\<exists>e. process_cert ps w df c st =
          st\<lparr>logged := logged st @ [processing_event (fst (splitext c)), added_cert_event c]
                 @ map (challan_event (files st) ps) (employee_challans df (fst (splitext c)))
                 @ [(ERROR, critical (fst (splitext c)) e)]\<rparr>))
   \<or> (employee_challans df (fst (splitext c)) \<noteq> []
      \<and> (\<exists>e left. process_cert ps w df c st =
          st\<lparr>logged := logged st @ [processing_event (fst (splitext c)), added_cert_event c]
                 @ map (challan_event (files st) ps) (employee_challans df (fst (splitext c)))
                 @ [(ERROR, critical (fst (splitext c)) e)],
             files := (files st)(output_path ps (fst (splitext c)) \<mapsto> left)\<rparr>))
   \<or> (employee_challans df (fst (splitext c)) \<noteq> []
      \<and> process_cert ps w df c st =
          st\<lparr>logged := logged st @ [processing_event (fst (splitext c)), added_cert_event c]
                 @ map (challan_event (files st) ps) (employee_challans df (fst (splitext c)))
                 @ [success_event ps (fst (splitext c))],
             files := (files st)(output_path ps (fst (splitext c))
                        \<mapsto> Pdf (combined ps df (files st) c)),
             writes := writes st
                        @ [(output_path ps (fst (splitext c)), Pdf (combined ps df (files st) c))],
             processed_files := processed_files st + 1\<rparr>)"
proof (cases "employee_challans df (fst (splitext c)) = []")
  case True
  then show ?thesis by (simp add: process_cert_skip)
next
  case rows: False
  show ?thesis
  proof (cases "files st (cert_path ps c)")
    case None
    then have "pdf_append (files st) [] (cert_path ps c) = Inl (FileNotFoundError (cert_path ps c), [])"
      by (simp add: pdf_append_def)
    from process_cert_cert_fails [OF rows this] rows show ?thesis by blast
  next
    case (Some x)
    show ?thesis
    proof (cases x)
      case (Damaged pgs e)
      with Some have "pdf_append (files st) [] (cert_path ps c) = Inl (e, pgs)"
        by (simp add: pdf_append_def)
      from process_cert_cert_fails [OF rows this] rows show ?thesis by blast
    next
      case (Pdf cps)
      with Some have c1: "files st (cert_path ps c) = Some (Pdf cps)" by simp
      show ?thesis
      proof (cases "out_fault w (output_path ps (fst (splitext c)))")
        case None
        from process_cert_merged [OF rows c1 None] rows show ?thesis by blast
      next
        case (Some fault)
        show ?thesis
        proof (cases fault)
          case (OpenFails e)
          with Some have "out_fault w (output_path ps (fst (splitext c))) = Some (OpenFails e)"
            by simp
          from process_cert_open_fails [OF rows c1 this] rows show ?thesis by blast
        next
          case (WriteFails e left)
          with Some have "out_fault w (output_path ps (fst (splitext c))) = Some (WriteFails e left)"
            by simp
          from process_cert_write_fails [OF rows c1 this] rows show ?thesis by blast
        qed
      qed
    qed
  qed
qed

lemma process_cert_counts:
  "(writes (process_cert ps w df c st) = writes st
      \<and> processed_files (process_cert ps w df c st) = processed_files st)
   \<or> (employee_challans df (fst (splitext c)) \<noteq> []
      \<and> (\<exists>d. writes (process_cert ps w df c st)
                 = writes st @ [(output_path ps (fst (splitext c)), d)])
      \<and> processed_files (process_cert ps w df c st) = processed_files st + 1)"
  using process_cert_cases [of df c ps w st]
  by (elim disjE conjE exE) simp_all



section \<open>One round of the loop\<close>

lemma cert_step_ambiguous:
  assumes "1 < count_list (columns df) employee_col_name"
  shows "cert_step ps w df c st =
     st\<lparr>logged := logged st @ [processing_event (fst (splitext c)),
                                (ERROR, critical (fst (splitext c)) ambiguous_label_error)]\<rparr>"
  using assms by (simp add: cert_step_def Let_def processing_event_def log_event_def)

lemma cert_step_plain:
  assumes "\<not> 1 < count_list (columns df) employee_col_name"
  shows "cert_step ps w df c st = process_cert ps w df c st"
  using assms by (simp add: cert_step_def)

lemma cert_step_counts:
  "(writes (cert_step ps w df c st) = writes st
      \<and> processed_files (cert_step ps w df c st) = processed_files st)
   \<or> (employee_challans df (fst (splitext c)) \<noteq> []
      \<and> (\<exists>d. writes (cert_step ps w df c st)
                 = writes st @ [(output_path ps (fst (splitext c)), d)]
             \<and> files (cert_step ps w df c st) (output_path ps (fst (splitext c))) = Some d)
      \<and> processed_files (cert_step ps w df c st) = processed_files st + 1)"
proof (cases "1 < count_list (columns df) employee_col_name")
  case True
  then show ?thesis by (simp add: cert_step_ambiguous)
next
  case False
  from process_cert_cases [of df c ps w st] show ?thesis
    unfolding cert_step_plain [OF False]
    by (elim disjE conjE exE) simp_all
qed

section \<open>The loop over the certificates\<close>

lemma not_processing_challan_event: "\<not> is_processing (challan_event fs ps r)"
  by (simp add: is_processing_def challan_event_def missing_warning_def
      split: option.splits content.splits)

lemma filter_processing_challan_events [simp]:
  "filter is_processing (map (challan_event fs ps) rs) = []"
  by (induction rs) (simp_all add: not_processing_challan_event)

lemma is_processing_simps [simp]:
  "is_processing (processing_event n)"
  "\<not> is_processing (skip_warning n)"
  "\<not> is_processing (added_cert_event c)"
  "\<not> is_processing (success_event ps n)"
  "\<not> is_processing (ERROR, msg)"
  by (simp_all add: is_processing_def processing_event_def skip_warning_def
      added_cert_event_def success_event_def)

lemma process_cert_processing:
  "filter is_processing (logged (process_cert ps w df c st))
     = filter is_processing (logged st) @ [processing_event (fst (splitext c))]"
  using process_cert_cases [of df c ps w st]
  by (elim disjE conjE exE) simp_all

lemma cert_step_processing:
  "filter is_processing (logged (cert_step ps w df c st))
     = filter is_processing (logged st) @ [processing_event (fst (splitext c))]"
  by (cases "1 < count_list (columns df) employee_col_name")
     (simp_all add: cert_step_ambiguous cert_step_plain process_cert_processing)

lemma cert_loop_processing:
  "filter is_processing (logged (cert_loop ps w df cs st))
     = filter is_processing (logged st) @ map (\<lambda>c. processing_event (fst (splitext c))) cs"
  by (induction cs arbitrary: st) (simp_all add: cert_step_processing)

lemma cert_loop_counts:
  "processed_files st \<le> processed_files (cert_loop ps w df cs st)
   \<and> processed_files (cert_loop ps w df cs st)
       \<le> processed_files st
          + length (filter (\<lambda>c. employee_challans df (fst (splitext c)) \<noteq> []) cs)
   \<and> length (writes (cert_loop ps w df cs st)) + processed_files st
       = length (writes st) + processed_files (cert_loop ps w df cs st)"
proof (induction cs arbitrary: st)
  case Nil
  show ?case by simp
next
  case (Cons c cs)
  from cert_step_counts [of ps w df c st] Cons.IH [of "cert_step ps w df c st"]
  show ?case by auto
qed

lemma distinct_step:
  "distinct (P @ x # Os) \<Longrightarrow> distinct (P @ Os) \<and> distinct ((P @ [x]) @ Os)"
  by auto

lemma cert_loop_write_paths:
  assumes "distinct (map fst (writes st) @ map (\<lambda>c. output_path ps (fst (splitext c))) cs)"
  shows "distinct (map fst (writes (cert_loop ps w df cs st)))"
  using assms
proof (induction cs arbitrary: st)
  case Nil
  then show ?case by simp
next
  case (Cons c cs)
  let ?Os = "map (\<lambda>c. output_path ps (fst (splitext c))) cs"
  from Cons.prems
  have d: "distinct (map fst (writes st) @ ?Os)
      \<and> distinct ((map fst (writes st) @ [output_path ps (fst (splitext c))]) @ ?Os)"
    by (intro distinct_step) simp
  from cert_step_counts [of ps w df c st]
  have "map fst (writes (cert_step ps w df c st)) = map fst (writes st)
      \<or> map fst (writes (cert_step ps w df c st))
          = map fst (writes st) @ [output_path ps (fst (splitext c))]"
    by (elim disjE conjE exE) simp_all
  with d have "distinct (map fst (writes (cert_step ps w df c st)) @ ?Os)"
    by (elim disjE) (simp_all only:)
  then show ?case by (simp add: Cons.IH)
qed







section \<open>Dependence on the files read\<close>

lemma appended_map_cong:
  "\<forall>r \<in> set rs. fs (challan_path ps r) = fs' (challan_path ps r) \<Longrightarrow>
   map (\<lambda>r. appended fs (challan_path ps r)) rs = map (\<lambda>r. appended fs' (challan_path ps r)) rs"
  by (induction rs) (simp_all add: appended_def)

lemma challan_event_map_cong:
  "\<forall>r \<in> set rs. fs (challan_path ps r) = fs' (challan_path ps r) \<Longrightarrow>
   map (challan_event fs ps) rs = map (challan_event fs' ps) rs"
  by (induction rs) (simp_all add: challan_event_def)

lemma combined_cong:
  assumes "fs (cert_path ps c) = fs' (cert_path ps c)"
      and "\<forall>r \<in> set (rows df). fs (challan_path ps r) = fs' (challan_path ps r)"
  shows "combined ps df fs c = combined ps df fs' c"
proof -
  have "\<forall>r \<in> set (employee_challans df (fst (splitext c))).
          fs (challan_path ps r) = fs' (challan_path ps r)"
    using assms(2) employee_challans_subset [of df "fst (splitext c)"] by blast
  then have "map (\<lambda>r. appended fs (challan_path ps r)) (employee_challans df (fst (splitext c)))
      = map (\<lambda>r. appended fs' (challan_path ps r)) (employee_challans df (fst (splitext c)))"
    by (rule appended_map_cong)
  moreover have "appended fs (cert_path ps c) = appended fs' (cert_path ps c)"
    using assms(1) by (simp add: appended_def)
  ultimately show ?thesis
    by (simp only: combined_def)
qed

lemma challan_events_cong:
  assumes "\<forall>r \<in> set (rows df). fs (challan_path ps r) = fs' (challan_path ps r)"
  shows "map (challan_event fs ps) (employee_challans df n) = map (challan_event fs' ps) (employee_challans df n)"
proof -
  have "\<forall>r \<in> set (employee_challans df n). fs (challan_path ps r) = fs' (challan_path ps r)"
    using assms employee_challans_subset [of df n] by blast
  then show ?thesis by (rule challan_event_map_cong)
qed

lemma process_cert_frame:
  assumes ag: "agree R st st'"
      and cp: "cert_path ps c \<in> R"
      and ch: "challan_path ps ` set (rows df) \<subseteq> R"
  shows "agree R (process_cert ps w df c st) (process_cert ps w df c st')
         \<and> same_effect st st' (process_cert ps w df c st) (process_cert ps w df c st')"
proof -
  let ?n = "fst (splitext c)"
  have f1: "files st (cert_path ps c) = files st' (cert_path ps c)"
    using ag cp by (simp add: agree_def)
  have f2: "\<forall>r \<in> set (rows df). files st (challan_path ps r) = files st' (challan_path ps r)"
    using ag ch by (auto simp: agree_def)
  have ev: "map (challan_event (files st) ps) (employee_challans df ?n)
          = map (challan_event (files st') ps) (employee_challans df ?n)"
    using f2 by (rule challan_events_cong)
  have cb: "combined ps df (files st) c = combined ps df (files st') c"
    using f1 f2 by (rule combined_cong)
  show ?thesis
  proof (cases "employee_challans df ?n = []")
    case True
    then show ?thesis
      using ag by (simp add: process_cert_skip agree_def same_effect_def)
  next
    case rows: False
    show ?thesis
    proof (cases "files st (cert_path ps c)")
      case None
      with f1 have n2: "files st' (cert_path ps c) = None" by simp
      have "pdf_append (files st) [] (cert_path ps c) = Inl (FileNotFoundError (cert_path ps c), [])"
        and "pdf_append (files st') [] (cert_path ps c) = Inl (FileNotFoundError (cert_path ps c), [])"
        by (simp_all add: pdf_append_def None n2)
      then show ?thesis
        using ag rows by (simp add: process_cert_cert_fails agree_def same_effect_def)
    next
      case (Some x)
      show ?thesis
      proof (cases x)
        case (Damaged pgs e)
        with Some have d1: "files st (cert_path ps c) = Some (Damaged pgs e)" by simp
        with f1 have d2: "files st' (cert_path ps c) = Some (Damaged pgs e)" by simp
        have "pdf_append (files st) [] (cert_path ps c) = Inl (e, pgs)"
          and "pdf_append (files st') [] (cert_path ps c) = Inl (e, pgs)"
          by (simp_all add: pdf_append_def d1 d2)
        then show ?thesis
          using ag rows by (simp add: process_cert_cert_fails agree_def same_effect_def)
      next
        case (Pdf cps)
        with Some have c1: "files st (cert_path ps c) = Some (Pdf cps)" by simp
        with f1 have c2: "files st' (cert_path ps c) = Some (Pdf cps)" by simp
        show ?thesis
        proof (cases "out_fault w (output_path ps ?n)")
          case None
          show ?thesis
            using ag ev cb
            by (simp add: process_cert_merged [OF rows c1 None] process_cert_merged [OF rows c2 None]
                agree_def same_effect_def)
        next
          case (Some fault)
          show ?thesis
          proof (cases fault)
            case (OpenFails e)
            with Some have o: "out_fault w (output_path ps ?n) = Some (OpenFails e)" by simp
            show ?thesis
              using ag ev
              by (simp add: process_cert_open_fails [OF rows c1 o] process_cert_open_fails [OF rows c2 o]
                  agree_def same_effect_def)
          next
            case (WriteFails e left)
            with Some have o: "out_fault w (output_path ps ?n) = Some (WriteFails e left)" by simp
            show ?thesis
              using ag ev
              by (simp add: process_cert_write_fails [OF rows c1 o] process_cert_write_fails [OF rows c2 o]
                  agree_def same_effect_def)
          qed
        qed
      qed
    qed
  qed
qed

lemma cert_step_frame:
  assumes ag: "agree R st st'"
      and cp: "cert_path ps c \<in> R"
      and ch: "challan_path ps ` set (rows df) \<subseteq> R"
  shows "agree R (cert_step ps w df c st) (cert_step ps w df c st')
         \<and> same_effect st st' (cert_step ps w df c st) (cert_step ps w df c st')"
proof (cases "1 < count_list (columns df) employee_col_name")
  case True
  then show ?thesis
    using ag by (simp add: cert_step_ambiguous agree_def same_effect_def)
next
  case False
  from process_cert_frame [OF ag cp ch] show ?thesis
    by (simp only: cert_step_plain [OF False])
qed

lemma same_effect_trans:
  assumes "same_effect st st' t t'" and "same_effect t t' u u'"
  shows "same_effect st st' u u'"
  unfolding same_effect_def
proof
  fix p
  from assms(1) have a: "(files t p = files st p \<and> files t' p = files st' p) \<or> files t p = files t' p"
    by (simp add: same_effect_def)
  from assms(2) have b: "(files u p = files t p \<and> files u' p = files t' p) \<or> files u p = files u' p"
    by (simp add: same_effect_def)
  from a b show "(files u p = files st p \<and> files u' p = files st' p) \<or> files u p = files u' p"
    by auto
qed

lemma cert_loop_frame:
  assumes "agree R st st'"
      and "cert_path ps ` set cs \<subseteq> R"
      and "challan_path ps ` set (rows df) \<subseteq> R"
  shows "agree R (cert_loop ps w df cs st) (cert_loop ps w df cs st')
         \<and> same_effect st st' (cert_loop ps w df cs st) (cert_loop ps w df cs st')"
  using assms
proof (induction cs arbitrary: st st')
  case Nil
  then show ?case by (simp add: same_effect_def)
next
  case (Cons c cs)
  from Cons.prems have step: "agree R (cert_step ps w df c st) (cert_step ps w df c st')
      \<and> same_effect st st' (cert_step ps w df c st) (cert_step ps w df c st')"
    by (intro cert_step_frame) auto
  from Cons.prems have "cert_path ps ` set cs \<subseteq> R" by auto
  with Cons.IH [of "cert_step ps w df c st" "cert_step ps w df c st'"] step Cons.prems(3)
  have rest: "agree R (cert_loop ps w df cs (cert_step ps w df c st))
                      (cert_loop ps w df cs (cert_step ps w df c st'))
     \<and> same_effect (cert_step ps w df c st) (cert_step ps w df c st')
         (cert_loop ps w df cs (cert_step ps w df c st))
         (cert_loop ps w df cs (cert_step ps w df c st'))"
    by blast
  from step rest show ?case
    by (auto intro: same_effect_trans)
qed

section \<open>The whole run\<close>

lemma finished_simps [simp]:
  "files (finished n st) = files st"
  "writes (finished n st) = writes st"
  "processed_files (finished n st) = processed_files st"
  "logged (finished n st)
     = logged st @ [(INFO, [Lit ''--- Process Complete ---'']), summary (processed_files st) n]"
  by (simp_all add: finished_def)

lemma merge_run:
  assumes "read_excel w (excel_file ps) = Inr df0"
      and "schema_ok df0"
      and "listdir w (cert_dir ps) = Inr names"
  shows "merge_pdfs_logic ps w fs =
     (finished (length (total_certs names))
        (cert_loop ps w (df0\<lparr>columns := map strip (columns df0)\<rparr>) (total_certs names)
           (loaded_state ps fs (length (total_certs names)))),
      Returned)"
  using assms
  by (simp add: merge_pdfs_logic_def Let_def schema_ok_def loaded_state_def finished_def
      log_event_def)

lemma merge_bad_columns:
  assumes "read_excel w (excel_file ps) = Inr df0"
      and "\<not> schema_ok df0"
  shows "merge_pdfs_logic ps w fs =
     (\<lparr>logged = start_log ps
         @ [(ERROR, [Lit (''Excel file must contain columns named '' @ apostrophe),
               Str employee_col_name, Lit (apostrophe @ '' and '' @ apostrophe),
               Str challan_col_name, Lit (apostrophe @ ''.'')]),
            (ERROR, [Lit ''Found columns: '', Cols (map strip (columns df0))])],
       files = fs, writes = [], processed_files = 0\<rparr>, Returned)"
  using assms
  by (auto simp add: merge_pdfs_logic_def Let_def schema_ok_def log_event_def)

lemma merge_load_fails:
  assumes "read_excel w (excel_file ps) = Inl e"
  shows "files (fst (merge_pdfs_logic ps w fs)) = fs"
    and "merge_pdfs_logic ps w fs' = (fst (merge_pdfs_logic ps w fs)\<lparr>files := fs'\<rparr>, Returned)"
  using assms
  by (simp_all add: merge_pdfs_logic_def Let_def log_event_def split: exn.splits)

lemma merge_listing_fails:
  assumes "read_excel w (excel_file ps) = Inr df0"
      and "schema_ok df0"
      and "listdir w (cert_dir ps) = Inl e"
  shows "merge_pdfs_logic ps w fs =
     (\<lparr>logged = start_log ps
         @ [(INFO, [Lit ''Successfully loaded and validated the Excel file.''])],
       files = fs, writes = [], processed_files = 0\<rparr>, Raised e)"
  using assms
  by (simp add: merge_pdfs_logic_def Let_def schema_ok_def log_event_def)

section \<open>Evaluation of the examples\<close>

lemmas eval_defs = Let_def employee_col_name_def challan_col_name_def
  strip_def is_space_def total_certs_def endswith_def lower_def lower_char_def uppercase_def
  lowercase_def process_cert_def cert_step_def splitext_def rfind_def employee_challans_def path_join_def
  pdf_append_def exists_def challan_path_def challan_filename_def challan_num_def
  write_output_def output_path_def log_event_def critical_def summary_def start_log_def
  cert_path_def

lemmas ex_defs = ex_paths_def ex_world_def ex_files_def ex_df_def ex_state_def ex_names_def

lemma ex_total_certs: "total_certs ex_names = [''Alice.pdf'', ''Bob.pdf'', ''Carol.pdf'']"
  by (simp add: eval_defs ex_defs)

lemma ex_base_names:
  "fst (splitext ''Alice.pdf'') = ''Alice''"
  "fst (splitext ''Bob.pdf'') = ''Bob''"
  "fst (splitext ''Carol.pdf'') = ''Carol''"
  "fst (splitext ''Alice.PDF'') = ''Alice''"
  by (simp_all add: splitext_def rfind_def Let_def)

lemma ex_challans:
  "employee_challans ex_df ''Alice'' =
     [\<lparr>employee_cell = Val '' Alice'', challan_cell = Val ''101 ''\<rparr>,
      \<lparr>employee_cell = Val ''Alice'', challan_cell = Val ''102''\<rparr>]"
  "employee_challans ex_df ''Bob'' = [\<lparr>employee_cell = Val ''Bob'', challan_cell = Val ''201''\<rparr>]"
  "employee_challans ex_df ''Carol'' = []"
  by (simp_all add: employee_challans_def ex_df_def strip_def is_space_def)

lemma ex_loads:
  "read_excel ex_world (excel_file ex_paths) = Inr ex_df"
  "listdir ex_world (cert_dir ex_paths) = Inr ex_names"
  "schema_ok ex_df"
  by (simp_all add: ex_world_def ex_names_def schema_ok_def ex_df_def employee_col_name_def
      challan_col_name_def strip_def is_space_def)

lemma ex_output_paths:
  "map (\<lambda>c. output_path ex_paths (fst (splitext c))) [''Alice.pdf'', ''Bob.pdf'', ''Carol.pdf'']
     = [''out/Alice_combined.pdf'', ''out/Bob_combined.pdf'', ''out/Carol_combined.pdf'']"
  by (simp add: ex_base_names output_path_def path_join_def ex_paths_def)

lemma ex_run:
  "merge_pdfs_logic ex_paths ex_world ex_files =
     (\<lparr>logged = start_log ex_paths @
         [(INFO, [Lit ''Successfully loaded and validated the Excel file.'']),
          (INFO, [Lit ''Found '', Num 3, Lit '' PDF files in the certificate directory.'']),
          (INFO, [Lit ''--- Processing certificate for: '', Str ''Alice'', Lit '' ---'']),
          (INFO, [Lit ''Added certificate: '', Str ''Alice.pdf'']),
          (INFO, [Lit ''  + Added challan: '', Str ''101.pdf'']),
          (WARNING, [Lit ''  - Challan file not found: '', Str ''challans/102.pdf'',
                     Lit ''. Skipping.'']),
          (INFO, [Lit ''Successfully created merged file: '', Str ''out/Alice_combined.pdf'']),
          (INFO, [Lit ''--- Processing certificate for: '', Str ''Bob'', Lit '' ---'']),
          (INFO, [Lit ''Added certificate: '', Str ''Bob.pdf'']),
          (INFO, [Lit ''  + Added challan: '', Str ''201.pdf'']),
          (INFO, [Lit ''Successfully created merged file: '', Str ''out/Bob_combined.pdf'']),
          (INFO, [Lit ''--- Processing certificate for: '', Str ''Carol'', Lit '' ---'']),
          (WARNING, [Lit (''No challan entries found for '' @ apostrophe), Str ''Carol'',
                     Lit (apostrophe @ '' in the Excel file. Skipping.'')]),
          (INFO, [Lit ''--- Process Complete ---'']),
          summary 2 3],
       files = ex_files(''out/Alice_combined.pdf'' \<mapsto> Pdf [1, 2, 10],
                        ''out/Bob_combined.pdf'' \<mapsto> Pdf [3, 20, 21]),
       writes = [(''out/Alice_combined.pdf'', Pdf [1, 2, 10]),
                 (''out/Bob_combined.pdf'', Pdf [3, 20, 21])],
       processed_files = 2\<rparr>, Returned)"
  by (simp add: merge_pdfs_logic_def eval_defs ex_defs)

lemma dup_total_certs: "total_certs [''Alice.pdf'', ''Alice.PDF''] = [''Alice.pdf'', ''Alice.PDF'']"
  by (simp add: eval_defs)

lemma dup_run:
  "merge_pdfs_logic ex_paths dup_world dup_files =
     (\<lparr>logged = start_log ex_paths @
         [(INFO, [Lit ''Successfully loaded and validated the Excel file.'']),
          (INFO, [Lit ''Found '', Num 2, Lit '' PDF files in the certificate directory.'']),
          (INFO, [Lit ''--- Processing certificate for: '', Str ''Alice'', Lit '' ---'']),
          (INFO, [Lit ''Added certificate: '', Str ''Alice.pdf'']),
          (INFO, [Lit ''  + Added challan: '', Str ''101.pdf'']),
          (WARNING, [Lit ''  - Challan file not found: '', Str ''challans/102.pdf'',
                     Lit ''. Skipping.'']),
          (INFO, [Lit ''Successfully created merged file: '', Str ''out/Alice_combined.pdf'']),
          (INFO, [Lit ''--- Processing certificate for: '', Str ''Alice'', Lit '' ---'']),
          (INFO, [Lit ''Added certificate: '', Str ''Alice.PDF'']),
          (INFO, [Lit ''  + Added challan: '', Str ''101.pdf'']),
          (WARNING, [Lit ''  - Challan file not found: '', Str ''challans/102.pdf'',
                     Lit ''. Skipping.'']),
          (INFO, [Lit ''Successfully created merged file: '', Str ''out/Alice_combined.pdf'']),
          (INFO, [Lit ''--- Process Complete ---'']),
          summary 2 2],
       files = dup_files(''out/Alice_combined.pdf'' \<mapsto> Pdf [5, 10]),
       writes = [(''out/Alice_combined.pdf'', Pdf [1, 2, 10]),
                 (''out/Alice_combined.pdf'', Pdf [5, 10])],
       processed_files = 2\<rparr>, Returned)"
  by (simp add: merge_pdfs_logic_def eval_defs ex_defs dup_world_def dup_files_def)


section \<open>Lookup of the receipt ids of a person\<close>





section \<open>The combined document\<close>




section \<open>All receipts missing\<close>




section \<open>The success count\<close>

text \<open>
  C4, as amended. When the run completes (the spreadsheet loads with both columns and
  the certificate directory is listed), the last record is the summary with the count
  of successes and the number of certificates; the count of successes never exceeds the
  number of certificates and equals the number of completed output writes; it equals the
  number of distinct output files written when the output paths of the certificates are
  pairwise distinct.
\<close>

theorem success_count:
  assumes "read_excel w (excel_file ps) = Inr df0"
      and "schema_ok df0"
      and "listdir w (cert_dir ps) = Inr names"
  shows "last (logged (fst (merge_pdfs_logic ps w fs)))
           = summary (processed_files (fst (merge_pdfs_logic ps w fs))) (length (total_certs names))
   \<and> processed_files (fst (merge_pdfs_logic ps w fs)) \<le> length (total_certs names)
   \<and> processed_files (fst (merge_pdfs_logic ps w fs))
       = length (writes (fst (merge_pdfs_logic ps w fs)))
   \<and> (distinct (map (\<lambda>c. output_path ps (fst (splitext c))) (total_certs names))
       \<longrightarrow> card (fst ` set (writes (fst (merge_pdfs_logic ps w fs))))
             = processed_files (fst (merge_pdfs_logic ps w fs)))"
proof -
  let ?certs = "total_certs names"
  let ?st = "loaded_state ps fs (length ?certs)"
  let ?df = "df0\<lparr>columns := map strip (columns df0)\<rparr>"
  let ?end = "cert_loop ps w ?df ?certs ?st"
  have run: "merge_pdfs_logic ps w fs = (finished (length ?certs) ?end, Returned)"
    using assms by (simp add: merge_run)
  have "processed_files ?end
           \<le> length (filter (\<lambda>c. employee_challans df0 (fst (splitext c)) \<noteq> []) ?certs)
      \<and> length (writes ?end) = processed_files ?end"
    using cert_loop_counts [of ?st ps w ?df ?certs] by (simp add: loaded_state_def)
  moreover have "length (filter (\<lambda>c. employee_challans df0 (fst (splitext c)) \<noteq> []) ?certs)
           \<le> length ?certs"
    by (rule length_filter_le)
  ultimately have cnt: "processed_files ?end \<le> length ?certs
      \<and> length (writes ?end) = processed_files ?end"
    using le_trans by blast
  have "card (fst ` set (writes ?end)) = processed_files ?end"
    if "distinct (map (\<lambda>c. output_path ps (fst (splitext c))) ?certs)"
  proof -
    from that have "distinct (map fst (writes ?st) @ map (\<lambda>c. output_path ps (fst (splitext c))) ?certs)"
      by (simp add: loaded_state_def)
    then have "distinct (map fst (writes ?end))"
      by (rule cert_loop_write_paths)
    then have "card (set (map fst (writes ?end))) = length (map fst (writes ?end))"
      by (rule distinct_card)
    with cnt show ?thesis by simp
  qed
  with cnt show ?thesis
    by (simp add: run)
qed

theorem success_count_witness:
  "last (logged (fst (merge_pdfs_logic ex_paths ex_world ex_files))) = summary 2 3
   \<and> processed_files (fst (merge_pdfs_logic ex_paths ex_world ex_files)) = 2
   \<and> length (writes (fst (merge_pdfs_logic ex_paths ex_world ex_files))) = 2
   \<and> card (fst ` set (writes (fst (merge_pdfs_logic ex_paths ex_world ex_files)))) = 2"
proof -
  have d: "distinct (map (\<lambda>c. output_path ex_paths (fst (splitext c))) (total_certs ex_names))"
    unfolding ex_total_certs ex_output_paths by simp
  have p: "processed_files (fst (merge_pdfs_logic ex_paths ex_world ex_files)) = 2"
    by (simp add: ex_run)
  from success_count [OF ex_loads(1) ex_loads(3) ex_loads(2), of ex_files] d p
  show ?thesis
    by (simp add: ex_total_certs numeral_3_eq_3)
qed

text \<open>
  C4 as stated fails: with \<open>Alice.pdf\<close> and \<open>Alice.PDF\<close> in the certificate directory the run
  completes with 2 out of 2 in its summary, while a single output file was written
  (twice) and only that path of the file system changed.
\<close>

theorem same_output_counted_twice:
  "snd (merge_pdfs_logic ex_paths dup_world dup_files) = Returned
   \<and> last (logged (fst (merge_pdfs_logic ex_paths dup_world dup_files))) = summary 2 2
   \<and> card (fst ` set (writes (fst (merge_pdfs_logic ex_paths dup_world dup_files)))) = 1
   \<and> files (fst (merge_pdfs_logic ex_paths dup_world dup_files))
       = dup_files(''out/Alice_combined.pdf'' \<mapsto> Pdf [5, 10])"
  by (simp add: dup_run)

section \<open>A person without rows\<close>



section \<open>A spreadsheet without a required column\<close>

text \<open>
  C6. When the spreadsheet is read and, after stripping the headers, \<open>Employee Name\<close> or
  \<open>Challan Number\<close> is absent, the function logs two errors, the first naming both
  required headers and the second listing the headers found, and returns: the file
  system is unchanged, nothing is written or counted and no certificate is processed.
\<close>

theorem schema_error:
  assumes "read_excel w (excel_file ps) = Inr df0"
      and "''Employee Name'' \<notin> set (map strip (columns df0))
           \<or> ''Challan Number'' \<notin> set (map strip (columns df0))"
  shows "merge_pdfs_logic ps w fs =
     (\<lparr>logged = start_log ps
         @ [(ERROR, [Lit (''Excel file must contain columns named '' @ apostrophe),
               Str ''Employee Name'', Lit (apostrophe @ '' and '' @ apostrophe),
               Str ''Challan Number'', Lit (apostrophe @ ''.'')]),
            (ERROR, [Lit ''Found columns: '', Cols (map strip (columns df0))])],
       files = fs, writes = [], processed_files = 0\<rparr>, Returned)
   \<and> filter is_processing (logged (fst (merge_pdfs_logic ps w fs))) = []"
proof -
  have "\<not> schema_ok df0"
    using assms(2) by (simp add: schema_ok_def employee_col_name_def challan_col_name_def)
  from merge_bad_columns [OF assms(1) this, of fs] show ?thesis
    by (simp add: employee_col_name_def challan_col_name_def start_log_def is_processing_def)
qed

theorem schema_error_witness:
  "merge_pdfs_logic ex_paths bad_world ex_files =
     (\<lparr>logged = start_log ex_paths
         @ [(ERROR, [Lit (''Excel file must contain columns named '' @ apostrophe),
               Str ''Employee Name'', Lit (apostrophe @ '' and '' @ apostrophe),
               Str ''Challan Number'', Lit (apostrophe @ ''.'')]),
            (ERROR, [Lit ''Found columns: '', Cols [''Employee Name'', ''Challan No'']])],
       files = ex_files, writes = [], processed_files = 0\<rparr>, Returned)"
proof -
  have a: "read_excel bad_world (excel_file ex_paths) = Inr bad_df"
    by (simp add: bad_world_def)
  have c: "map strip (columns bad_df) = [''Employee Name'', ''Challan No'']"
    by (simp add: bad_df_def strip_def is_space_def)
  have b: "''Employee Name'' \<notin> set (map strip (columns bad_df))
       \<or> ''Challan Number'' \<notin> set (map strip (columns bad_df))"
    by (simp add: c)
  from schema_error [OF a b, of ex_files] show ?thesis
    by (simp add: c)
qed

section \<open>Errors of one person\<close>

text \<open>
  C7, as amended. Every certificate of the work list is processed, in order, whatever
  happened to those before it. An exception that reaches the handler of lines 136-138
  (resolving the person's rows at line 101, appending the certificate, opening or writing
  the output file) is logged as an error naming the person and the exception, the success
  count is not incremented, and the loop goes on. An exception appending a found receipt
  is caught inside (lines 119-123): it is logged as a warning naming the receipt path and
  the same person's merge goes on. The function is left by an exception exactly when the
  spreadsheet loaded with both columns and listing the certificate directory raised; a
  failed load ends the run by returning.
\<close>

theorem per_person_isolation:
  "filter is_processing (logged (cert_loop ps w df cs st))
     = filter is_processing (logged st)
       @ map (\<lambda>c. (INFO, [Lit ''--- Processing certificate for: '', Str (fst (splitext c)),
                           Lit '' ---''])) cs
   \<and> cert_loop ps w df (c # cs) st = cert_loop ps w df cs (cert_step ps w df c st)
   \<and> (1 < count_list (columns df) employee_col_name
      \<longrightarrow> cert_step ps w df c st =
            st\<lparr>logged := logged st @ [processing_event (fst (splitext c)),
                                       (ERROR, critical (fst (splitext c)) ambiguous_label_error)]\<rparr>)
   \<and> (\<not> 1 < count_list (columns df) employee_col_name
        \<and> employee_challans df (fst (splitext c)) \<noteq> []
        \<and> pdf_append (files st) [] (path_join (cert_dir ps) c) = Inl (e, m)
      \<longrightarrow> cert_step ps w df c st =
            st\<lparr>logged := logged st @ [processing_event (fst (splitext c)),
                                       (ERROR, critical (fst (splitext c)) e)]\<rparr>)
   \<and> (\<not> 1 < count_list (columns df) employee_col_name
        \<and> employee_challans df (fst (splitext c)) \<noteq> []
        \<and> files st (path_join (cert_dir ps) c) = Some (Pdf cps)
        \<and> out_fault w (output_path ps (fst (splitext c))) = Some (OpenFails e)
      \<longrightarrow> cert_step ps w df c st =
            st\<lparr>logged := logged st @ [processing_event (fst (splitext c)), added_cert_event c]
                   @ map (challan_event (files st) ps) (employee_challans df (fst (splitext c)))
                   @ [(ERROR, critical (fst (splitext c)) e)]\<rparr>)
   \<and> (\<not> 1 < count_list (columns df) employee_col_name
        \<and> employee_challans df (fst (splitext c)) \<noteq> []
        \<and> files st (path_join (cert_dir ps) c) = Some (Pdf cps)
        \<and> out_fault w (output_path ps (fst (splitext c))) = Some (WriteFails e left)
      \<longrightarrow> cert_step ps w df c st =
            st\<lparr>logged := logged st @ [processing_event (fst (splitext c)), added_cert_event c]
                   @ map (challan_event (files st) ps) (employee_challans df (fst (splitext c)))
                   @ [(ERROR, critical (fst (splitext c)) e)],
               files := (files st)(output_path ps (fst (splitext c)) \<mapsto> left)\<rparr>)
   \<and> critical n e =
        [Lit ''A critical error occurred while processing '', Str n,
         Lit ''. Skipping. Error: '', Exc e]
   \<and> (files st (challan_path ps r) = Some (Damaged pgs e)
      \<longrightarrow> challan_loop ps (r # rs) m st =
            challan_loop ps rs (m @ pgs)
              (log_event WARNING [Lit ''  - Could not merge challan file '',
                 Str (challan_path ps r), Lit ''. Skipping. Error: '', Exc e] st))
   \<and> (snd (merge_pdfs_logic ps w fs) = Raised e
      \<longleftrightarrow> (\<exists>df0. read_excel w (excel_file ps) = Inr df0 \<and> schema_ok df0
                 \<and> listdir w (cert_dir ps) = Inl e))"
proof (intro conjI impI)
  show "filter is_processing (logged (cert_loop ps w df cs st))
     = filter is_processing (logged st)
       @ map (\<lambda>c. (INFO, [Lit ''--- Processing certificate for: '', Str (fst (splitext c)),
                           Lit '' ---''])) cs"
    using cert_loop_processing [of ps w df cs st] by (simp add: processing_event_def)
next
  show "cert_loop ps w df (c # cs) st = cert_loop ps w df cs (cert_step ps w df c st)"
    by simp
next
  assume "1 < count_list (columns df) employee_col_name"
  then show "cert_step ps w df c st =
            st\<lparr>logged := logged st @ [processing_event (fst (splitext c)),
                                       (ERROR, critical (fst (splitext c)) ambiguous_label_error)]\<rparr>"
    by (rule cert_step_ambiguous)
next
  assume a: "\<not> 1 < count_list (columns df) employee_col_name
        \<and> employee_challans df (fst (splitext c)) \<noteq> []
        \<and> pdf_append (files st) [] (path_join (cert_dir ps) c) = Inl (e, m)"
  then have "cert_step ps w df c st = process_cert ps w df c st"
    by (simp add: cert_step_plain)
  moreover from a have "process_cert ps w df c st =
            st\<lparr>logged := logged st @ [processing_event (fst (splitext c)),
                                       (ERROR, critical (fst (splitext c)) e)]\<rparr>"
    by (intro process_cert_cert_fails) (simp_all add: cert_path_def)
  ultimately show "cert_step ps w df c st =
            st\<lparr>logged := logged st @ [processing_event (fst (splitext c)),
                                       (ERROR, critical (fst (splitext c)) e)]\<rparr>"
    by (simp only:)
next
  assume a: "\<not> 1 < count_list (columns df) employee_col_name
        \<and> employee_challans df (fst (splitext c)) \<noteq> []
        \<and> files st (path_join (cert_dir ps) c) = Some (Pdf cps)
        \<and> out_fault w (output_path ps (fst (splitext c))) = Some (OpenFails e)"
  then have "cert_step ps w df c st = process_cert ps w df c st"
    by (simp add: cert_step_plain)
  moreover from a have "process_cert ps w df c st =
            st\<lparr>logged := logged st @ [processing_event (fst (splitext c)), added_cert_event c]
                   @ map (challan_event (files st) ps) (employee_challans df (fst (splitext c)))
                   @ [(ERROR, critical (fst (splitext c)) e)]\<rparr>"
    by (intro process_cert_open_fails [where cps = cps]) (simp_all add: cert_path_def)
  ultimately show "cert_step ps w df c st =
            st\<lparr>logged := logged st @ [processing_event (fst (splitext c)), added_cert_event c]
                   @ map (challan_event (files st) ps) (employee_challans df (fst (splitext c)))
                   @ [(ERROR, critical (fst (splitext c)) e)]\<rparr>"
    by (simp only:)
next
  assume a: "\<not> 1 < count_list (columns df) employee_col_name
        \<and> employee_challans df (fst (splitext c)) \<noteq> []
        \<and> files st (path_join (cert_dir ps) c) = Some (Pdf cps)
        \<and> out_fault w (output_path ps (fst (splitext c))) = Some (WriteFails e left)"
  then have "cert_step ps w df c st = process_cert ps w df c st"
    by (simp add: cert_step_plain)
  moreover from a have "process_cert ps w df c st =
            st\<lparr>logged := logged st @ [processing_event (fst (splitext c)), added_cert_event c]
                   @ map (challan_event (files st) ps) (employee_challans df (fst (splitext c)))
                   @ [(ERROR, critical (fst (splitext c)) e)],
               files := (files st)(output_path ps (fst (splitext c)) \<mapsto> left)\<rparr>"
    by (intro process_cert_write_fails [where cps = cps]) (simp_all add: cert_path_def)
  ultimately show "cert_step ps w df c st =
            st\<lparr>logged := logged st @ [processing_event (fst (splitext c)), added_cert_event c]
                   @ map (challan_event (files st) ps) (employee_challans df (fst (splitext c)))
                   @ [(ERROR, critical (fst (splitext c)) e)],
               files := (files st)(output_path ps (fst (splitext c)) \<mapsto> left)\<rparr>"
    by (simp only:)
next
  show "critical n e =
        [Lit ''A critical error occurred while processing '', Str n,
         Lit ''. Skipping. Error: '', Exc e]"
    by (simp add: critical_def)
next
  assume "files st (challan_path ps r) = Some (Damaged pgs e)"
  then show "challan_loop ps (r # rs) m st =
            challan_loop ps rs (m @ pgs)
              (log_event WARNING [Lit ''  - Could not merge challan file '',
                 Str (challan_path ps r), Lit ''. Skipping. Error: '', Exc e] st)"
    by (simp add: exists_def pdf_append_def)
next
  show "snd (merge_pdfs_logic ps w fs) = Raised e
      \<longleftrightarrow> (\<exists>df0. read_excel w (excel_file ps) = Inr df0 \<and> schema_ok df0
                 \<and> listdir w (cert_dir ps) = Inl e)"
    by (auto simp: merge_pdfs_logic_def Let_def schema_ok_def split: sum.splits exn.splits)
qed

theorem per_person_isolation_witness:
  "filter is_processing
     (logged (cert_loop ex_paths ex_world ex_df [''Alice.pdf'', ''Bob.pdf'', ''Carol.pdf'']
        damaged_cert_state))
     = [(INFO, [Lit ''--- Processing certificate for: '', Str ''Alice'', Lit '' ---'']),
        (INFO, [Lit ''--- Processing certificate for: '', Str ''Bob'', Lit '' ---'']),
        (INFO, [Lit ''--- Processing certificate for: '', Str ''Carol'', Lit '' ---''])]
   \<and> cert_step ex_paths ex_world (ambiguous_df\<lparr>columns := map strip (columns ambiguous_df)\<rparr>)
       ''Bob.pdf'' ex_state =
       ex_state\<lparr>logged :=
         [(INFO, [Lit ''--- Processing certificate for: '', Str ''Bob'', Lit '' ---'']),
          (ERROR, [Lit ''A critical error occurred while processing '', Str ''Bob'',
                   Lit ''. Skipping. Error: '', Exc ambiguous_label_error])]\<rparr>
   \<and> cert_step ex_paths ex_world ex_df ''Bob.pdf'' damaged_cert_state =
       damaged_cert_state\<lparr>logged :=
         [(INFO, [Lit ''--- Processing certificate for: '', Str ''Bob'', Lit '' ---'']),
          (ERROR, [Lit ''A critical error occurred while processing '', Str ''Bob'',
                   Lit ''. Skipping. Error: '', Exc (Exception ''EOF marker not found'')])]\<rparr>
   \<and> logged (cert_step ex_paths readonly_world ex_df ''Bob.pdf'' ex_state) =
         [(INFO, [Lit ''--- Processing certificate for: '', Str ''Bob'', Lit '' ---'']),
          (INFO, [Lit ''Added certificate: '', Str ''Bob.pdf'']),
          (INFO, [Lit ''  + Added challan: '', Str ''201.pdf'']),
          (ERROR, [Lit ''A critical error occurred while processing '', Str ''Bob'',
                   Lit ''. Skipping. Error: '', Exc (Exception ''Permission denied'')])]
   \<and> processed_files (cert_step ex_paths full_disk_world ex_df ''Bob.pdf'' ex_state) = 0
   \<and> challan_loop ex_paths [\<lparr>employee_cell = Val '' Alice'', challan_cell = Val ''101 ''\<rparr>] [1, 2]
        damaged_receipt_state =
       ([1, 2], damaged_receipt_state\<lparr>logged :=
          [(WARNING, [Lit ''  - Could not merge challan file '', Str ''challans/101.pdf'',
                      Lit ''. Skipping. Error: '', Exc (Exception ''not a PDF'')])]\<rparr>)
   \<and> snd (merge_pdfs_logic ex_paths nolist_world ex_files) = Raised (FileNotFoundError ''certs'')"
proof -
  have plain: "\<not> 1 < count_list (columns ex_df) employee_col_name"
    by (simp add: ex_df_def employee_col_name_def)
  have bob: "employee_challans ex_df (fst (splitext ''Bob.pdf'')) \<noteq> []"
    by (simp add: ex_base_names ex_challans)
  have bob_ok: "files ex_state (path_join (cert_dir ex_paths) ''Bob.pdf'') = Some (Pdf [3])"
    by (simp add: ex_defs path_join_def)
  have w1: "filter is_processing
     (logged (cert_loop ex_paths ex_world ex_df [''Alice.pdf'', ''Bob.pdf'', ''Carol.pdf'']
        damaged_cert_state))
     = [(INFO, [Lit ''--- Processing certificate for: '', Str ''Alice'', Lit '' ---'']),
        (INFO, [Lit ''--- Processing certificate for: '', Str ''Bob'', Lit '' ---'']),
        (INFO, [Lit ''--- Processing certificate for: '', Str ''Carol'', Lit '' ---''])]"
    using per_person_isolation [where ps = ex_paths and w = ex_world and df = ex_df
        and cs = "[''Alice.pdf'', ''Bob.pdf'', ''Carol.pdf'']" and st = damaged_cert_state,
        THEN conjunct1]
    by (simp add: ex_base_names damaged_cert_state_def ex_state_def)
  have "1 < count_list (columns (ambiguous_df\<lparr>columns := map strip (columns ambiguous_df)\<rparr>))
          employee_col_name"
    by (simp add: ambiguous_df_def ex_df_def employee_col_name_def strip_def is_space_def)
  with per_person_isolation [where ps = ex_paths and w = ex_world
      and df = "ambiguous_df\<lparr>columns := map strip (columns ambiguous_df)\<rparr>"
      and c = "''Bob.pdf''" and st = ex_state,
      THEN conjunct2, THEN conjunct2, THEN conjunct1]
  have w2: "cert_step ex_paths ex_world (ambiguous_df\<lparr>columns := map strip (columns ambiguous_df)\<rparr>)
       ''Bob.pdf'' ex_state =
       ex_state\<lparr>logged :=
         [(INFO, [Lit ''--- Processing certificate for: '', Str ''Bob'', Lit '' ---'']),
          (ERROR, [Lit ''A critical error occurred while processing '', Str ''Bob'',
                   Lit ''. Skipping. Error: '', Exc ambiguous_label_error])]\<rparr>"
    by (simp add: ex_base_names processing_event_def critical_def ex_state_def)
  have "pdf_append (files damaged_cert_state) [] (path_join (cert_dir ex_paths) ''Bob.pdf'')
      = Inl (Exception ''EOF marker not found'', [])"
    by (simp add: damaged_cert_state_def ex_defs path_join_def pdf_append_def)
  with plain bob per_person_isolation [where ps = ex_paths and w = ex_world and df = ex_df
      and c = "''Bob.pdf''" and st = damaged_cert_state
      and e = "Exception ''EOF marker not found''" and m = "[]",
      THEN conjunct2, THEN conjunct2, THEN conjunct2, THEN conjunct1]
  have w3: "cert_step ex_paths ex_world ex_df ''Bob.pdf'' damaged_cert_state =
       damaged_cert_state\<lparr>logged :=
         [(INFO, [Lit ''--- Processing certificate for: '', Str ''Bob'', Lit '' ---'']),
          (ERROR, [Lit ''A critical error occurred while processing '', Str ''Bob'',
                   Lit ''. Skipping. Error: '', Exc (Exception ''EOF marker not found'')])]\<rparr>"
    by (simp add: ex_base_names processing_event_def critical_def damaged_cert_state_def
        ex_state_def)
  have "out_fault readonly_world (output_path ex_paths (fst (splitext ''Bob.pdf'')))
      = Some (OpenFails (Exception ''Permission denied''))"
    by (simp add: readonly_world_def)
  with plain bob bob_ok per_person_isolation [where ps = ex_paths and w = readonly_world
      and df = ex_df and c = "''Bob.pdf''" and st = ex_state and cps = "[3]"
      and e = "Exception ''Permission denied''",
      THEN conjunct2, THEN conjunct2, THEN conjunct2, THEN conjunct2, THEN conjunct1]
  have "cert_step ex_paths readonly_world ex_df ''Bob.pdf'' ex_state =
      ex_state\<lparr>logged := logged ex_state
           @ [processing_event (fst (splitext ''Bob.pdf'')), added_cert_event ''Bob.pdf'']
           @ map (challan_event (files ex_state) ex_paths)
               (employee_challans ex_df (fst (splitext ''Bob.pdf'')))
           @ [(ERROR, critical (fst (splitext ''Bob.pdf'')) (Exception ''Permission denied''))]\<rparr>"
    by blast
  then have w4: "logged (cert_step ex_paths readonly_world ex_df ''Bob.pdf'' ex_state) =
         [(INFO, [Lit ''--- Processing certificate for: '', Str ''Bob'', Lit '' ---'']),
          (INFO, [Lit ''Added certificate: '', Str ''Bob.pdf'']),
          (INFO, [Lit ''  + Added challan: '', Str ''201.pdf'']),
          (ERROR, [Lit ''A critical error occurred while processing '', Str ''Bob'',
                   Lit ''. Skipping. Error: '', Exc (Exception ''Permission denied'')])]"
    unfolding ex_base_names ex_challans
    by (simp add: processing_event_def added_cert_event_def critical_def challan_event_def
        challan_path_def challan_filename_def challan_num_def path_join_def strip_def
        is_space_def ex_state_def ex_paths_def ex_files_def)
  have "out_fault full_disk_world (output_path ex_paths (fst (splitext ''Bob.pdf'')))
      = Some (WriteFails (Exception ''No space left on device'')
                (Damaged [] (Exception ''truncated'')))"
    by (simp add: full_disk_world_def)
  with plain bob bob_ok per_person_isolation [where ps = ex_paths and w = full_disk_world
      and df = ex_df and c = "''Bob.pdf''" and st = ex_state and cps = "[3]"
      and e = "Exception ''No space left on device''"
      and left = "Damaged [] (Exception ''truncated'')",
      THEN conjunct2, THEN conjunct2, THEN conjunct2, THEN conjunct2, THEN conjunct2,
      THEN conjunct1]
  have "cert_step ex_paths full_disk_world ex_df ''Bob.pdf'' ex_state =
      ex_state\<lparr>logged := logged ex_state
           @ [processing_event (fst (splitext ''Bob.pdf'')), added_cert_event ''Bob.pdf'']
           @ map (challan_event (files ex_state) ex_paths)
               (employee_challans ex_df (fst (splitext ''Bob.pdf'')))
           @ [(ERROR, critical (fst (splitext ''Bob.pdf''))
                 (Exception ''No space left on device''))],
         files := (files ex_state)(output_path ex_paths (fst (splitext ''Bob.pdf''))
                     \<mapsto> Damaged [] (Exception ''truncated''))\<rparr>"
    by blast
  then have w5: "processed_files (cert_step ex_paths full_disk_world ex_df ''Bob.pdf'' ex_state) = 0"
    by (simp add: ex_state_def)
  have "files damaged_receipt_state
          (challan_path ex_paths \<lparr>employee_cell = Val '' Alice'', challan_cell = Val ''101 ''\<rparr>)
      = Some (Damaged [] (Exception ''not a PDF''))"
    by (simp add: damaged_receipt_state_def ex_state_def ex_paths_def challan_path_def
        challan_filename_def challan_num_def path_join_def strip_def is_space_def)
  with per_person_isolation [where ps = ex_paths and st = damaged_receipt_state
      and r = "\<lparr>employee_cell = Val '' Alice'', challan_cell = Val ''101 ''\<rparr>" and rs = "[]"
      and e = "Exception ''not a PDF''" and pgs = "[]" and m = "[1, 2]",
      THEN conjunct2, THEN conjunct2, THEN conjunct2, THEN conjunct2, THEN conjunct2,
      THEN conjunct2, THEN conjunct2, THEN conjunct1]
  have w6: "challan_loop ex_paths [\<lparr>employee_cell = Val '' Alice'', challan_cell = Val ''101 ''\<rparr>] [1, 2]
        damaged_receipt_state =
       ([1, 2], damaged_receipt_state\<lparr>logged :=
          [(WARNING, [Lit ''  - Could not merge challan file '', Str ''challans/101.pdf'',
                      Lit ''. Skipping. Error: '', Exc (Exception ''not a PDF'')])]\<rparr>)"
    by (simp add: log_event_def damaged_receipt_state_def ex_state_def ex_paths_def
        challan_path_def challan_filename_def challan_num_def path_join_def strip_def
        is_space_def)
  have "\<exists>df0. read_excel nolist_world (excel_file ex_paths) = Inr df0 \<and> schema_ok df0
      \<and> listdir nolist_world (cert_dir ex_paths) = Inl (FileNotFoundError ''certs'')"
    using ex_loads(3) by (simp add: nolist_world_def ex_world_def ex_paths_def)
  with per_person_isolation [where ps = ex_paths and w = nolist_world and fs = ex_files
      and e = "FileNotFoundError ''certs''",
      THEN conjunct2, THEN conjunct2, THEN conjunct2, THEN conjunct2, THEN conjunct2,
      THEN conjunct2, THEN conjunct2, THEN conjunct2]
  have w7: "snd (merge_pdfs_logic ex_paths nolist_world ex_files) = Raised (FileNotFoundError ''certs'')"
    by blast
  from w1 w2 w3 w4 w5 w6 w7 show ?thesis by blast
qed

text \<open>
  C7 as stated fails in two ways. With the spreadsheet loaded and validated, an exception
  of \<open>os.listdir\<close> (line 93, outside every handler) ends the batch, although the load
  succeeded. And an exception raised while a found receipt is appended is not reported by
  an error event: Alice's receipt 101 is damaged, the run logs a warning for it and no
  error, and writes her document without it.
\<close>

theorem listing_failure_ends_batch:
  "read_excel nolist_world (excel_file ex_paths) = Inr ex_df
   \<and> schema_ok ex_df
   \<and> merge_pdfs_logic ex_paths nolist_world ex_files =
       (\<lparr>logged = start_log ex_paths
           @ [(INFO, [Lit ''Successfully loaded and validated the Excel file.''])],
         files = ex_files, writes = [], processed_files = 0\<rparr>,
        Raised (FileNotFoundError ''certs''))
   \<and> filter (\<lambda>ev. fst ev \<noteq> INFO)
       (logged (cert_step ex_paths ex_world ex_df ''Alice.pdf'' damaged_receipt_state)) =
       [(WARNING, [Lit ''  - Could not merge challan file '', Str ''challans/101.pdf'',
                   Lit ''. Skipping. Error: '', Exc (Exception ''not a PDF'')]),
        (WARNING, [Lit ''  - Challan file not found: '', Str ''challans/102.pdf'',
                   Lit ''. Skipping.''])]
   \<and> writes (cert_step ex_paths ex_world ex_df ''Alice.pdf'' damaged_receipt_state) =
       [(''out/Alice_combined.pdf'', Pdf [1, 2])]"
proof -
  have a: "read_excel nolist_world (excel_file ex_paths) = Inr ex_df
   \<and> schema_ok ex_df
   \<and> merge_pdfs_logic ex_paths nolist_world ex_files =
       (\<lparr>logged = start_log ex_paths
           @ [(INFO, [Lit ''Successfully loaded and validated the Excel file.''])],
         files = ex_files, writes = [], processed_files = 0\<rparr>,
        Raised (FileNotFoundError ''certs''))"
    by (simp add: merge_pdfs_logic_def Let_def nolist_world_def ex_world_def ex_paths_def
        schema_ok_def ex_df_def employee_col_name_def challan_col_name_def strip_def is_space_def
        log_event_def)
  have b: "cert_step ex_paths ex_world ex_df ''Alice.pdf'' damaged_receipt_state =
      damaged_receipt_state\<lparr>logged :=
        [(INFO, [Lit ''--- Processing certificate for: '', Str ''Alice'', Lit '' ---'']),
         (INFO, [Lit ''Added certificate: '', Str ''Alice.pdf'']),
         (WARNING, [Lit ''  - Could not merge challan file '', Str ''challans/101.pdf'',
                    Lit ''. Skipping. Error: '', Exc (Exception ''not a PDF'')]),
         (WARNING, [Lit ''  - Challan file not found: '', Str ''challans/102.pdf'',
                    Lit ''. Skipping.'']),
         (INFO, [Lit ''Successfully created merged file: '', Str ''out/Alice_combined.pdf''])],
        files := (files damaged_receipt_state)(''out/Alice_combined.pdf'' \<mapsto> Pdf [1, 2]),
        writes := [(''out/Alice_combined.pdf'', Pdf [1, 2])],
        processed_files := 1\<rparr>"
    by (simp add: eval_defs ex_defs damaged_receipt_state_def)
  have c: "filter (\<lambda>ev. fst ev \<noteq> INFO)
       (logged (cert_step ex_paths ex_world ex_df ''Alice.pdf'' damaged_receipt_state)) =
       [(WARNING, [Lit ''  - Could not merge challan file '', Str ''challans/101.pdf'',
                   Lit ''. Skipping. Error: '', Exc (Exception ''not a PDF'')]),
        (WARNING, [Lit ''  - Challan file not found: '', Str ''challans/102.pdf'',
                   Lit ''. Skipping.''])]"
    and d: "writes (cert_step ex_paths ex_world ex_df ''Alice.pdf'' damaged_receipt_state) =
       [(''out/Alice_combined.pdf'', Pdf [1, 2])]"
    unfolding b by simp_all
  from a c d show ?thesis by (intro conjI) blast+
qed

section \<open>Running the batch twice\<close>

text \<open>
  C8. Run the batch, then run it again on the file system the first run left, in the same
  world (same spreadsheet, same listing, same behaviour of the library). If the inputs
  are unchanged, that is, every certificate and receipt path holds after the first run
  what it held before, the second run ends in the same state as the first: the same
  files with the same contents, the same log with the same summary, the same writes and
  the same success count, which starts from zero in each run.
\<close>

theorem batch_idempotent:
  assumes same: "\<forall>df0 names. read_excel w (excel_file ps) = Inr df0
                   \<and> listdir w (cert_dir ps) = Inr names
                 \<longrightarrow> (\<forall>p \<in> reads ps df0 (total_certs names).
                        files (fst (merge_pdfs_logic ps w fs)) p = fs p)"
  shows "merge_pdfs_logic ps w (files (fst (merge_pdfs_logic ps w fs))) = merge_pdfs_logic ps w fs"
proof (cases "read_excel w (excel_file ps)")
  case (Inl e)
  from merge_load_fails [OF Inl] show ?thesis by simp
next
  case ex: (Inr df0)
  show ?thesis
  proof (cases "schema_ok df0")
    case False
    then show ?thesis
      by (simp add: merge_bad_columns [OF ex])
  next
    case True
    show ?thesis
    proof (cases "listdir w (cert_dir ps)")
      case (Inl e)
      then show ?thesis
        by (simp add: merge_listing_fails [OF ex True])
    next
      case ls: (Inr names)
      let ?certs = "total_certs names"
      let ?n = "length ?certs"
      let ?R = "reads ps df0 ?certs"
      let ?df = "df0\<lparr>columns := map strip (columns df0)\<rparr>"
      let ?loop = "cert_loop ps w ?df ?certs"
      let ?fs1 = "files (?loop (loaded_state ps fs ?n))"
      have run: "\<And>g. merge_pdfs_logic ps w g = (finished ?n (?loop (loaded_state ps g ?n)), Returned)"
        by (simp add: merge_run [OF ex True ls])
      have fs1: "files (fst (merge_pdfs_logic ps w fs)) = ?fs1"
        by (simp add: run)
      from same ex ls have "\<forall>p \<in> ?R. files (fst (merge_pdfs_logic ps w fs)) p = fs p"
        by blast
      then have ag: "agree ?R (loaded_state ps fs ?n) (loaded_state ps ?fs1 ?n)"
        by (simp add: agree_def loaded_state_def fs1)
      have "cert_path ps ` set ?certs \<subseteq> ?R" and "challan_path ps ` set (rows ?df) \<subseteq> ?R"
        by (auto simp: reads_def)
      with ag have fr: "agree ?R (?loop (loaded_state ps fs ?n)) (?loop (loaded_state ps ?fs1 ?n))
          \<and> same_effect (loaded_state ps fs ?n) (loaded_state ps ?fs1 ?n)
               (?loop (loaded_state ps fs ?n)) (?loop (loaded_state ps ?fs1 ?n))"
        by (rule cert_loop_frame)
      have "files (?loop (loaded_state ps ?fs1 ?n)) p = ?fs1 p" for p
        using fr by (auto simp: same_effect_def loaded_state_def)
      then have "files (?loop (loaded_state ps ?fs1 ?n)) = ?fs1"
        by (rule ext)
      with fr have "?loop (loaded_state ps ?fs1 ?n) = ?loop (loaded_state ps fs ?n)"
        by (simp add: agree_def state.equality)
      then show ?thesis
        by (simp add: run fs1)
    qed
  qed
qed

theorem batch_idempotent_witness:
  "merge_pdfs_logic ex_paths ex_world (files (fst (merge_pdfs_logic ex_paths ex_world ex_files)))
     = merge_pdfs_logic ex_paths ex_world ex_files
   \<and> files (fst (merge_pdfs_logic ex_paths ex_world ex_files)) ''out/Alice_combined.pdf''
       = Some (Pdf [1, 2, 10])
   \<and> processed_files (fst (merge_pdfs_logic ex_paths ex_world ex_files)) = 2"
proof -
  have r: "reads ex_paths ex_df (total_certs ex_names)
      = {''challans/101.pdf'', ''challans/102.pdf'', ''challans/201.pdf'',
         ''certs/Alice.pdf'', ''certs/Bob.pdf'', ''certs/Carol.pdf''}"
    unfolding ex_total_certs
    by (simp add: reads_def cert_path_def challan_path_def challan_filename_def challan_num_def
        path_join_def strip_def is_space_def ex_paths_def ex_df_def)
  have "\<forall>p \<in> reads ex_paths ex_df (total_certs ex_names).
      files (fst (merge_pdfs_logic ex_paths ex_world ex_files)) p = ex_files p"
    unfolding r by (simp add: ex_run)
  then have same: "\<forall>df0 names. read_excel ex_world (excel_file ex_paths) = Inr df0
                   \<and> listdir ex_world (cert_dir ex_paths) = Inr names
                 \<longrightarrow> (\<forall>p \<in> reads ex_paths df0 (total_certs names).
                        files (fst (merge_pdfs_logic ex_paths ex_world ex_files)) p = ex_files p)"
    using ex_loads(1,2) by simp
  from batch_idempotent [OF same] show ?thesis
    by (simp add: ex_run)
qed

section \<open>Blank and empty receipt ids\<close>

text \<open>
  C9, as amended. A row whose receipt id cell, as \<open>read_excel\<close> returned it, is a text
  that is empty or whitespace-only gives the filename \<open>.pdf\<close>: the row is selected like
  any other row of the person, the path \<open>challan_dir/.pdf\<close> is looked up, its document is
  appended when it exists and a missing-file warning is logged when it does not. A row
  whose receipt id cell is the missing value \<open>NaN\<close>, which \<open>read_excel\<close> can return for an
  empty cell, renders as \<open>nan\<close>: its filename is \<open>nan.pdf\<close>; that row is not filtered
  either.
\<close>

theorem blank_receipt_id:
  "(challan_cell r = Val s \<and> (\<forall>c \<in> set s. is_space c)
      \<longrightarrow> challan_filename r = ''.pdf''
        \<and> challan_path ps r = path_join (challan_dir ps) ''.pdf''
        \<and> (r \<in> set (rows df) \<and> strip (py_str (employee_cell r)) = strip n
             \<longrightarrow> r \<in> set (employee_challans df n))
        \<and> (files st (path_join (challan_dir ps) ''.pdf'') = Some (Pdf pgs)
             \<longrightarrow> challan_loop ps (r # rs) m st =
                   challan_loop ps rs (m @ pgs)
                     (log_event INFO [Lit ''  + Added challan: '', Str ''.pdf''] st))
        \<and> (files st (path_join (challan_dir ps) ''.pdf'') = None
             \<longrightarrow> challan_loop ps (r # rs) m st =
                   challan_loop ps rs m
                     (log_event WARNING [Lit ''  - Challan file not found: '',
                        Str (path_join (challan_dir ps) ''.pdf''), Lit ''. Skipping.''] st)))
   \<and> (challan_cell r = NaN
      \<longrightarrow> challan_filename r = ''nan.pdf''
        \<and> (r \<in> set (rows df) \<and> strip (py_str (employee_cell r)) = strip n
             \<longrightarrow> r \<in> set (employee_challans df n)))"
proof (intro conjI impI)
  assume h: "challan_cell r = Val s \<and> (\<forall>c \<in> set s. is_space c)"
  then have "strip s = []" by (simp add: strip_blank)
  with h show fn: "challan_filename r = ''.pdf''"
    by (simp add: challan_filename_def challan_num_def)
  then show cp: "challan_path ps r = path_join (challan_dir ps) ''.pdf''"
    by (simp add: challan_path_def)
  {
    assume "r \<in> set (rows df) \<and> strip (py_str (employee_cell r)) = strip n"
    then show "r \<in> set (employee_challans df n)"
      by (simp add: employee_challans_def)
  }
  {
    assume "files st (path_join (challan_dir ps) ''.pdf'') = Some (Pdf pgs)"
    then have "files st (challan_path ps r) = Some (Pdf pgs)" by (simp add: cp)
    then have "challan_loop ps (r # rs) m st =
        challan_loop ps rs (m @ pgs)
          (log_event INFO [Lit ''  + Added challan: '', Str (challan_filename r)] st)"
      by (simp add: exists_def pdf_append_def)
    then show "challan_loop ps (r # rs) m st =
        challan_loop ps rs (m @ pgs)
          (log_event INFO [Lit ''  + Added challan: '', Str ''.pdf''] st)"
      by (simp only: fn)
  }
  {
    assume "files st (path_join (challan_dir ps) ''.pdf'') = None"
    then have "files st (challan_path ps r) = None" by (simp add: cp)
    then have "challan_loop ps (r # rs) m st =
        challan_loop ps rs m
          (log_event WARNING [Lit ''  - Challan file not found: '',
             Str (challan_path ps r), Lit ''. Skipping.''] st)"
      by (simp add: exists_def)
    then show "challan_loop ps (r # rs) m st =
        challan_loop ps rs m
          (log_event WARNING [Lit ''  - Challan file not found: '',
             Str (path_join (challan_dir ps) ''.pdf''), Lit ''. Skipping.''] st)"
      by (simp only: cp)
  }
next
  assume "challan_cell r = NaN"
  moreover have "strip ''nan'' = ''nan''"
    by (simp add: strip_def is_space_def)
  ultimately show "challan_filename r = ''nan.pdf''"
    by (simp add: challan_filename_def challan_num_def)
next
  assume "challan_cell r = NaN"
    and "r \<in> set (rows df) \<and> strip (py_str (employee_cell r)) = strip n"
  then show "r \<in> set (employee_challans df n)"
    by (simp add: employee_challans_def)
qed

theorem blank_receipt_id_witness:
  "challan_filename blank_row = ''.pdf''
   \<and> challan_path ex_paths blank_row = ''challans/.pdf''
   \<and> blank_row \<in> set (employee_challans (ex_df\<lparr>rows := [blank_row, nan_row]\<rparr>) ''Alice'')
   \<and> challan_loop ex_paths [blank_row] [1, 2]
        (ex_state\<lparr>files := [''challans/.pdf'' \<mapsto> Pdf [7]]\<rparr>)
      = ([1, 2, 7], (ex_state\<lparr>files := [''challans/.pdf'' \<mapsto> Pdf [7]]\<rparr>)
                      \<lparr>logged := [(INFO, [Lit ''  + Added challan: '', Str ''.pdf''])]\<rparr>)
   \<and> challan_loop ex_paths [blank_row] [1, 2] (ex_state\<lparr>files := Map.empty\<rparr>)
      = ([1, 2], (ex_state\<lparr>files := Map.empty\<rparr>)
                   \<lparr>logged := [(WARNING, [Lit ''  - Challan file not found: '',
                                  Str ''challans/.pdf'', Lit ''. Skipping.''])]\<rparr>)
   \<and> challan_filename nan_row = ''nan.pdf''
   \<and> nan_row \<in> set (employee_challans (ex_df\<lparr>rows := [blank_row, nan_row]\<rparr>) ''Alice'')
   \<and> challan_filename empty_text_row = ''.pdf''"
proof -
  have sp: "\<forall>c \<in> set ''  ''. is_space c"
    by (simp add: is_space_def)
  have b: "challan_cell blank_row = Val ''  '' \<and> (\<forall>c \<in> set ''  ''. is_space c)"
    using sp by (simp add: blank_row_def)
  have pj: "path_join (challan_dir ex_paths) ''.pdf'' = ''challans/.pdf''"
    by (simp add: path_join_def ex_paths_def)
  have n: "challan_cell nan_row = NaN"
    by (simp add: nan_row_def)
  have m1: "blank_row \<in> set (rows (ex_df\<lparr>rows := [blank_row, nan_row]\<rparr>))
       \<and> strip (py_str (employee_cell blank_row)) = strip ''Alice''"
    by (simp add: blank_row_def)
  have m2: "nan_row \<in> set (rows (ex_df\<lparr>rows := [blank_row, nan_row]\<rparr>))
       \<and> strip (py_str (employee_cell nan_row)) = strip ''Alice''"
    by (simp add: nan_row_def)
  have f1: "files (ex_state\<lparr>files := [''challans/.pdf'' \<mapsto> Pdf [7]]\<rparr>)
              (path_join (challan_dir ex_paths) ''.pdf'') = Some (Pdf [7])"
    by (simp add: pj)
  have f2: "files (ex_state\<lparr>files := Map.empty\<rparr>) (path_join (challan_dir ex_paths) ''.pdf'') = None"
    by simp
  note T1 = blank_receipt_id [of blank_row "''  ''" ex_paths "ex_df\<lparr>rows := [blank_row, nan_row]\<rparr>"
      "''Alice''" "ex_state\<lparr>files := [''challans/.pdf'' \<mapsto> Pdf [7]]\<rparr>" "[7]" "[]" "[1, 2]"]
  note T2 = blank_receipt_id [of blank_row "''  ''" ex_paths "ex_df\<lparr>rows := [blank_row, nan_row]\<rparr>"
      "''Alice''" "ex_state\<lparr>files := Map.empty\<rparr>" "[7]" "[]" "[1, 2]"]
  note T3 = blank_receipt_id [of nan_row "''  ''" ex_paths "ex_df\<lparr>rows := [blank_row, nan_row]\<rparr>"
      "''Alice''" "ex_state\<lparr>files := Map.empty\<rparr>" "[7]" "[]" "[1, 2]"]
  from T1 b m1 f1 have a1: "challan_filename blank_row = ''.pdf''"
    and a2: "challan_path ex_paths blank_row = path_join (challan_dir ex_paths) ''.pdf''"
    and a3: "blank_row \<in> set (employee_challans (ex_df\<lparr>rows := [blank_row, nan_row]\<rparr>) ''Alice'')"
    and a4: "challan_loop ex_paths [blank_row] [1, 2]
        (ex_state\<lparr>files := [''challans/.pdf'' \<mapsto> Pdf [7]]\<rparr>)
      = challan_loop ex_paths [] ([1, 2] @ [7])
          (log_event INFO [Lit ''  + Added challan: '', Str ''.pdf'']
             (ex_state\<lparr>files := [''challans/.pdf'' \<mapsto> Pdf [7]]\<rparr>))"
    by blast+
  from T2 b f2 have a5: "challan_loop ex_paths [blank_row] [1, 2] (ex_state\<lparr>files := Map.empty\<rparr>)
      = challan_loop ex_paths [] [1, 2]
          (log_event WARNING [Lit ''  - Challan file not found: '',
              Str (path_join (challan_dir ex_paths) ''.pdf''), Lit ''. Skipping.'']
             (ex_state\<lparr>files := Map.empty\<rparr>))"
    by blast
  from T3 n m2 have a6: "challan_filename nan_row = ''nan.pdf''"
    and a7: "nan_row \<in> set (employee_challans (ex_df\<lparr>rows := [blank_row, nan_row]\<rparr>) ''Alice'')"
    by blast+
  have "challan_cell empty_text_row = Val '''' \<and> (\<forall>c \<in> set ''''. is_space c)"
    by (simp add: empty_text_row_def)
  with blank_receipt_id [of empty_text_row "''''" ex_paths "ex_df\<lparr>rows := [blank_row, nan_row]\<rparr>"
      "''Alice''" "ex_state\<lparr>files := Map.empty\<rparr>" "[7]" "[]" "[1, 2]"]
  have a8: "challan_filename empty_text_row = ''.pdf''"
    by blast
  from a1 a2 a3 a4 a5 a6 a7 a8 show ?thesis
    by (simp add: pj log_event_def ex_state_def)
qed

text \<open>
  C9 as stated fails for an empty cell that \<open>read_excel\<close> returned as the missing value:
  the filename built is \<open>nan.pdf\<close>, and an existing \<open>challan_dir/.pdf\<close> is not appended.
\<close>

theorem empty_cell_is_nan:
  "challan_cell nan_row = NaN
   \<and> challan_filename nan_row = ''nan.pdf''
   \<and> challan_path ex_paths nan_row = ''challans/nan.pdf''
   \<and> challan_loop ex_paths [nan_row] [1, 2]
        (ex_state\<lparr>files := [''challans/.pdf'' \<mapsto> Pdf [7]]\<rparr>)
      = ([1, 2], (ex_state\<lparr>files := [''challans/.pdf'' \<mapsto> Pdf [7]]\<rparr>)
                   \<lparr>logged := [(WARNING, [Lit ''  - Challan file not found: '',
                                  Str ''challans/nan.pdf'', Lit ''. Skipping.''])]\<rparr>)"
  by (simp add: nan_row_def challan_filename_def challan_num_def challan_path_def path_join_def
      strip_def is_space_def ex_paths_def ex_state_def exists_def log_event_def)

section \<open>Two certificates with one base name\<close>



end
